theory Spec2Isabelle
  imports Main "HOL-Library.AList" "HOL-Library.Char_ord" "HOL-Library.List_Lexorder"
begin

section \<open>Time\<close>

text \<open>
  An instant (\<^verbatim>\<open>time.Time\<close>) is the number of nanoseconds since the Unix epoch, a
  duration (\<^verbatim>\<open>time.Duration\<close>, an int64) a number of nanoseconds.
  \<^verbatim>\<open>Time.Sub\<close> saturates at the least and the greatest duration.
\<close>

type_synonym time = int
type_synonym duration = int

definition millisecond :: duration where
  "millisecond = 1000000"

definition second :: duration where
  "second = 1000000000"

definition minDuration :: duration where
  "minDuration = - (2 ^ 63)"

definition maxDuration :: duration where
  "maxDuration = 2 ^ 63 - 1"

definition time_Sub :: "time \<Rightarrow> time \<Rightarrow> duration" where
  "time_Sub t u = max minDuration (min maxDuration (t - u))"

text \<open>\<^verbatim>\<open>time.Since(t)\<close> is \<^verbatim>\<open>time.Now().Sub(t)\<close>; the current instant is passed in.\<close>

definition time_Since :: "time \<Rightarrow> time \<Rightarrow> duration" where
  "time_Since tnow t = time_Sub tnow t"

definition time_Unix :: "time \<Rightarrow> int" where
  "time_Unix t = t div second"

section \<open>Status cache (cache.go)\<close>

text \<open>
  The fields of \<^verbatim>\<open>CachedServiceStatus\<close> carry the prefix \<open>cs_\<close>, since \<^verbatim>\<open>Service\<close>
  has fields of the same names.
\<close>

record CachedServiceStatus =
  cs_Status :: string
  cs_PID :: int
  cs_Timestamp :: time

record ServiceStatusCache =
  cache :: "string \<rightharpoonup> CachedServiceStatus"
  ttl :: duration

definition NewServiceStatusCache :: ServiceStatusCache where
  "NewServiceStatusCache = \<lparr>cache = Map.empty, ttl = 5 * second\<rparr>"

definition cache_Get :: "ServiceStatusCache \<Rightarrow> time \<Rightarrow> string \<Rightarrow> CachedServiceStatus option" where
  "cache_Get c tnow serviceName =
     (case cache c serviceName of
        None \<Rightarrow> None
      | Some status \<Rightarrow>
          if time_Since tnow (cs_Timestamp status) > ttl c then None else Some status)"

definition cache_Set :: "ServiceStatusCache \<Rightarrow> time \<Rightarrow> string \<Rightarrow> string \<Rightarrow> int \<Rightarrow> ServiceStatusCache" where
  "cache_Set c tnow serviceName status pid =
     c\<lparr>cache := (cache c)(serviceName \<mapsto>
          \<lparr>cs_Status = status, cs_PID = pid, cs_Timestamp = tnow\<rparr>)\<rparr>"

definition cache_Remove :: "ServiceStatusCache \<Rightarrow> string \<Rightarrow> ServiceStatusCache" where
  "cache_Remove c serviceName = c\<lparr>cache := (cache c)(serviceName := None)\<rparr>"

definition cache_Clear :: "ServiceStatusCache \<Rightarrow> ServiceStatusCache" where
  "cache_Clear c = c\<lparr>cache := Map.empty\<rparr>"

definition cache_CleanExpired :: "ServiceStatusCache \<Rightarrow> time \<Rightarrow> ServiceStatusCache" where
  "cache_CleanExpired c tnow =
     c\<lparr>cache := (\<lambda>serviceName.
          case cache c serviceName of
            None \<Rightarrow> None
          | Some status \<Rightarrow>
              if time_Sub tnow (cs_Timestamp status) > ttl c then None else Some status)\<rparr>"

section \<open>Service records (app.go)\<close>

record Service =
  ID :: string
  Name :: string
  ExePath :: string
  Args :: string
  WorkingDir :: string
  Status :: string
  PID :: int
  AutoStart :: bool
  CreatedAt :: time
  UpdatedAt :: time

text \<open>The fields of \<^verbatim>\<open>ServiceConfig\<close> carry the prefix \<open>cfg_\<close> for the same reason.\<close>

record ServiceConfig =
  cfg_Name :: string
  cfg_ExePath :: string
  cfg_Args :: string
  cfg_WorkingDir :: string
  cfg_LogPath :: string

section \<open>Errors\<close>

text \<open>
  An error is either an error of the platform (the service control manager, the
  registry, the file system), whose text the program does not choose, or the result of
  \<^verbatim>\<open>fmt.Errorf\<close>: the message of the source, with the error it wraps (\<^verbatim>\<open>%v\<close>) if any.
\<close>

datatype error = OSError | Errorf string "error option"

definition errTimeout :: error where
  "errTimeout = Errorf ''timeout waiting for service state'' None"

definition errFailedToStart :: error where
  "errFailedToStart = Errorf ''service failed to start'' None"

definition errQuery :: error where
  "errQuery = Errorf ''failed to query service status: '' (Some OSError)"

definition errOpen :: error where
  "errOpen = Errorf ''failed to open service: '' (Some OSError)"

definition errConnect :: error where
  "errConnect = Errorf ''failed to connect to service control manager: '' (Some OSError)"

definition errDelete :: error where
  "errDelete = Errorf ''failed to delete service: '' (Some OSError)"

definition errNotExist :: "string \<Rightarrow> error" where
  "errNotExist serviceID = Errorf (''service does not exist: '' @ serviceID) None"

section \<open>The platform: service control manager, registry, files, clock\<close>

text \<open>
  The operating system is the environment of the program. Its state holds what the
  program can create and delete (service objects, registry keys and values, the snapshot
  file), the clock, and the trace of every call the program has issued with its outcome.
  What the program cannot decide is a parameter \<open>env\<close>: whether a call fails, how long it
  takes, and which run state a service reports. Each of these may depend on the whole
  state, hence on the clock and on the calls issued so far.
\<close>

datatype State = Stopped | StartPending | StopPending | Running
  | ContinuePending | PausePending | Paused

datatype Cmd = Stop | Pause | Continue | Interrogate | Shutdown

datatype StartType = StartManual | StartAutomatic | StartDisabled

record mgr_Config =
  ServiceType :: nat
  StartType :: StartType
  ErrorControl :: nat
  BinaryPathName :: string
  DisplayName :: string
  Description :: string

text \<open>
  The snapshot file holds a JSON document: an object with one member per service id,
  each an object of scalar members. The text layer of \<^verbatim>\<open>encoding/json\<close> (indentation,
  escaping) is not unfolded, and strings are taken as text (valid UTF-8).
\<close>

datatype jvalue = JStr string | JNum int | JBool bool

type_synonym snapshot = "(string \<times> (string \<times> jvalue) list) list"

datatype os_call =
    OpConnect
  | OpDisconnect
  | OpCreateService string string
  | OpOpenService string
  | OpClose string
  | OpQuery string
  | OpStart string
  | OpControl string Cmd
  | OpDelete string
  | OpConfig string
  | OpUpdateConfig string StartType
  | OpRegOpenKey string
  | OpRegCreateKey string
  | OpRegSetValue string string string
  | OpRegCloseKey string
  | OpExecutable
  | OpStat string
  | OpReadFile string
  | OpWriteFile string
  | OpSleep duration
  | OpPrintf string
  | EmitServiceStatusChanged string string int
  | EmitServicesUpdated "Service list"

datatype outcome = Done | Failed | Reported State nat

record os =
  scm :: "string \<rightharpoonup> mgr_Config"
  registry :: "string \<rightharpoonup> (string \<rightharpoonup> string)"
  files :: "string \<rightharpoonup> snapshot"
  now :: time
  trace :: "(os_call \<times> outcome) list"

record env =
  fails :: "os \<Rightarrow> os_call \<Rightarrow> bool"
  latency :: "os \<Rightarrow> os_call \<Rightarrow> nat"
  status_of :: "os \<Rightarrow> string \<Rightarrow> State \<times> nat"
  executable :: string
  filepath_Dir :: "string \<Rightarrow> string"
  time_MarshalJSON :: "time \<Rightarrow> string"
  time_UnmarshalJSON :: "string \<Rightarrow> time option"

text \<open>A call is appended to the trace with its outcome, and takes its latency.\<close>

definition step :: "env \<Rightarrow> os_call \<Rightarrow> outcome \<Rightarrow> os \<Rightarrow> os" where
  "step env c out os =
     os\<lparr>now := now os + int (latency env os c), trace := trace os @ [(c, out)]\<rparr>"

text \<open>A call that succeeds when it is possible in this state and the platform lets it.\<close>

definition attempt :: "env \<Rightarrow> os_call \<Rightarrow> bool \<Rightarrow> os \<Rightarrow> bool \<times> os" where
  "attempt env c possible os =
     (let ok = possible \<and> \<not> fails env os c
      in (ok, step env c (if ok then Done else Failed) os))"

definition time_Sleep :: "env \<Rightarrow> duration \<Rightarrow> os \<Rightarrow> os" where
  "time_Sleep env d os =
     (let os1 = step env (OpSleep d) Done os in os1\<lparr>now := now os1 + max 0 d\<rparr>)"

subsection \<open>Registry keys\<close>

definition backslash :: char where
  "backslash = CHR 0x5C"

definition dquote :: char where
  "dquote = CHR 0x22"

definition services_key :: "string \<Rightarrow> string" where
  "services_key serviceName =
     ''SYSTEM'' @ [backslash] @ ''CurrentControlSet'' @ [backslash] @ ''Services''
       @ [backslash] @ serviceName"

definition sub_key :: "string \<Rightarrow> string \<Rightarrow> string" where
  "sub_key keyPath subKey = keyPath @ [backslash] @ subKey"

definition under_key :: "string \<Rightarrow> string \<Rightarrow> bool" where
  "under_key keyPath p \<longleftrightarrow>
     p = keyPath \<or> take (Suc (length keyPath)) p = keyPath @ [backslash]"

definition reg_OpenKey :: "env \<Rightarrow> string \<Rightarrow> os \<Rightarrow> bool \<times> os" where
  "reg_OpenKey env keyPath os =
     attempt env (OpRegOpenKey keyPath) (registry os keyPath \<noteq> None) os"

definition reg_CreateKey :: "env \<Rightarrow> string \<Rightarrow> os \<Rightarrow> bool \<times> os" where
  "reg_CreateKey env keyPath os =
     (let (ok, os1) = attempt env (OpRegCreateKey keyPath) True os
      in (ok, if ok \<and> registry os1 keyPath = None
              then os1\<lparr>registry := (registry os1)(keyPath \<mapsto> Map.empty)\<rparr> else os1))"

definition reg_SetStringValue :: "env \<Rightarrow> string \<Rightarrow> string \<Rightarrow> string \<Rightarrow> os \<Rightarrow> bool \<times> os" where
  "reg_SetStringValue env keyPath valueName v os =
     (let (ok, os1) = attempt env (OpRegSetValue keyPath valueName v) True os
      in (ok, if ok
              then os1\<lparr>registry := (registry os1)(keyPath \<mapsto>
                     (case registry os1 keyPath of
                        None \<Rightarrow> [valueName \<mapsto> v]
                      | Some vals \<Rightarrow> vals(valueName \<mapsto> v)))\<rparr>
              else os1))"

definition reg_CloseKey :: "env \<Rightarrow> string \<Rightarrow> os \<Rightarrow> os" where
  "reg_CloseKey env keyPath os = step env (OpRegCloseKey keyPath) Done os"

subsection \<open>Service control manager\<close>

definition connectSCM :: "env \<Rightarrow> os \<Rightarrow> bool \<times> os" where
  "connectSCM env os = attempt env OpConnect True os"

definition scm_Disconnect :: "env \<Rightarrow> os \<Rightarrow> os" where
  "scm_Disconnect env os = step env OpDisconnect Done os"

definition scm_OpenService :: "env \<Rightarrow> string \<Rightarrow> os \<Rightarrow> bool \<times> os" where
  "scm_OpenService env name os = attempt env (OpOpenService name) (scm os name \<noteq> None) os"

text \<open>Creating a service object also creates its registry key, with its image path.\<close>

definition scm_CreateService :: "env \<Rightarrow> string \<Rightarrow> string \<Rightarrow> mgr_Config \<Rightarrow> os \<Rightarrow> bool \<times> os" where
  "scm_CreateService env name exepath c os =
     (let (ok, os1) = attempt env (OpCreateService name exepath) (scm os name = None) os
      in (ok, if ok
              then os1\<lparr>scm := (scm os1)(name \<mapsto> c\<lparr>BinaryPathName := exepath\<rparr>),
                       registry := (registry os1)(services_key name \<mapsto> [''ImagePath'' \<mapsto> exepath])\<rparr>
              else os1))"

definition svc_Close :: "env \<Rightarrow> string \<Rightarrow> os \<Rightarrow> os" where
  "svc_Close env name os = step env (OpClose name) Done os"

definition svc_Query :: "env \<Rightarrow> string \<Rightarrow> os \<Rightarrow> (State \<times> nat) option \<times> os" where
  "svc_Query env name os =
     (if fails env os (OpQuery name) then (None, step env (OpQuery name) Failed os)
      else (Some (status_of env os name),
            step env (OpQuery name)
              (Reported (fst (status_of env os name)) (snd (status_of env os name))) os))"

definition svc_Start :: "env \<Rightarrow> string \<Rightarrow> os \<Rightarrow> bool \<times> os" where
  "svc_Start env name os = attempt env (OpStart name) True os"

definition svc_Control :: "env \<Rightarrow> string \<Rightarrow> Cmd \<Rightarrow> os \<Rightarrow> bool \<times> os" where
  "svc_Control env name c os = attempt env (OpControl name c) True os"

text \<open>Deleting a service object removes it and its registry keys.\<close>

definition svc_Delete :: "env \<Rightarrow> string \<Rightarrow> os \<Rightarrow> bool \<times> os" where
  "svc_Delete env name os =
     (let (ok, os1) = attempt env (OpDelete name) True os
      in (ok, if ok
              then os1\<lparr>scm := (scm os1)(name := None),
                       registry := (\<lambda>p. if under_key (services_key name) p then None
                                         else registry os1 p)\<rparr>
              else os1))"

definition svc_Config :: "env \<Rightarrow> string \<Rightarrow> os \<Rightarrow> mgr_Config option \<times> os" where
  "svc_Config env name os =
     (let (ok, os1) = attempt env (OpConfig name) (scm os name \<noteq> None) os
      in (if ok then scm os name else None, os1))"

definition svc_UpdateConfig :: "env \<Rightarrow> string \<Rightarrow> mgr_Config \<Rightarrow> os \<Rightarrow> bool \<times> os" where
  "svc_UpdateConfig env name c os =
     (let (ok, os1) = attempt env (OpUpdateConfig name (StartType c)) True os
      in (ok, if ok then os1\<lparr>scm := (scm os1)(name \<mapsto> c)\<rparr> else os1))"

section \<open>Service manager (manager.go)\<close>

text \<open>
  The map \<^verbatim>\<open>services\<close> is an association list with distinct keys; its order stands for
  the order in which the Go runtime happens to range over the map. \<open>ctx\<close> tells whether
  a context for events was set. The mutexes are not modelled: operations run one at a time.
\<close>

record WindowsServiceManager =
  dataFile :: string
  services :: "(string \<times> Service) list"
  statusCache :: ServiceStatusCache
  ctx :: bool

text \<open>
  The path of the data file (\<^verbatim>\<open>getDataConfigPath\<close>) is passed in. The routine that
  sweeps the cache every 30 s runs beside the operations; one sweep is \<open>cache_CleanExpired\<close>.
\<close>

definition NewWindowsServiceManager :: "string \<Rightarrow> WindowsServiceManager" where
  "NewWindowsServiceManager path =
     \<lparr>dataFile = path, services = [], statusCache = NewServiceStatusCache, ctx = False\<rparr>"

definition SetContext :: "WindowsServiceManager \<Rightarrow> WindowsServiceManager" where
  "SetContext wsm = wsm\<lparr>ctx := True\<rparr>"

definition emitServiceStatusChanged ::
  "env \<Rightarrow> WindowsServiceManager \<Rightarrow> string \<Rightarrow> string \<Rightarrow> int \<Rightarrow> os \<Rightarrow> os" where
  "emitServiceStatusChanged env wsm serviceID status pid os =
     (if ctx wsm then step env (EmitServiceStatusChanged serviceID status pid) Done os else os)"

definition emitServicesUpdated :: "env \<Rightarrow> WindowsServiceManager \<Rightarrow> os \<Rightarrow> os" where
  "emitServicesUpdated env wsm os =
     (if ctx wsm then step env (EmitServicesUpdated (map snd (services wsm))) Done os else os)"

definition withSCM ::
  "env \<Rightarrow> (WindowsServiceManager \<Rightarrow> os \<Rightarrow> (error + 'a) \<times> WindowsServiceManager \<times> os)
     \<Rightarrow> WindowsServiceManager \<Rightarrow> os \<Rightarrow> (error + 'a) \<times> WindowsServiceManager \<times> os" where
  "withSCM env operation wsm os =
     (let (ok, os1) = connectSCM env os
      in if \<not> ok then (Inl errConnect, wsm, os1)
         else (let (r, wsm1, os2) = operation wsm os1
               in (r, wsm1, scm_Disconnect env os2)))"

subsection \<open>Waiting for a state\<close>

function waitLoop :: "env \<Rightarrow> string \<Rightarrow> State \<Rightarrow> time \<Rightarrow> os \<Rightarrow> error option \<times> os" where
  "waitLoop env name targetState deadline os =
     (if now os < deadline then
        (case fst (svc_Query env name os) of
           None \<Rightarrow> (Some errQuery, snd (svc_Query env name os))
         | Some status \<Rightarrow>
             if fst status = targetState then (None, snd (svc_Query env name os))
             else if targetState = Running \<and> fst status = Stopped
               then (Some errFailedToStart, snd (svc_Query env name os))
             else waitLoop env name targetState deadline
                    (time_Sleep env (500 * millisecond) (snd (svc_Query env name os))))
      else (Some errTimeout, os))"
  by pat_completeness auto
termination
  by (relation "measure (\<lambda>(env, name, targetState, deadline, os). nat (deadline - now os))")
     (auto simp: svc_Query_def time_Sleep_def step_def millisecond_def Let_def)

definition waitForServiceState ::
  "env \<Rightarrow> string \<Rightarrow> State \<Rightarrow> duration \<Rightarrow> os \<Rightarrow> error option \<times> os" where
  "waitForServiceState env name targetState timeout os =
     waitLoop env name targetState (now os + timeout) os"

subsection \<open>Registry values of a service\<close>

definition setServiceRegistryValue ::
  "env \<Rightarrow> string \<Rightarrow> string \<Rightarrow> string \<Rightarrow> string \<Rightarrow> os \<Rightarrow> error option \<times> os" where
  "setServiceRegistryValue env serviceName subKey valueName v os =
     (let parent = services_key serviceName;
          keyPath = (if subKey \<noteq> [] then sub_key parent subKey else parent)
      in if subKey \<noteq> [] then
           (let (ok1, os1) = reg_OpenKey env parent os
            in if \<not> ok1
               then (Some (Errorf ''failed to open service registry key: '' (Some OSError)), os1)
               else (let (ok2, os2) = reg_CreateKey env keyPath os1
                     in if \<not> ok2
                        then (Some (Errorf ''failed to create registry subkey: '' (Some OSError)),
                              reg_CloseKey env parent os2)
                        else (let (ok3, os3) = reg_SetStringValue env keyPath valueName v os2;
                                  os4 = reg_CloseKey env parent (reg_CloseKey env keyPath os3)
                              in (if ok3 then None
                                  else Some (Errorf ''failed to set registry value: '' (Some OSError)),
                                  os4))))
         else
           (let (ok1, os1) = reg_OpenKey env keyPath os
            in if \<not> ok1
               then (Some (Errorf ''failed to open service registry key: '' (Some OSError)), os1)
               else (let (ok3, os3) = reg_SetStringValue env keyPath valueName v os1
                     in (if ok3 then None
                         else Some (Errorf ''failed to set registry value: '' (Some OSError)),
                         reg_CloseKey env keyPath os3))))"

definition setServiceWorkingDirectory :: "env \<Rightarrow> string \<Rightarrow> string \<Rightarrow> os \<Rightarrow> error option \<times> os" where
  "setServiceWorkingDirectory env serviceName workingDir os =
     setServiceRegistryValue env serviceName ''Parameters'' ''AppDirectory'' workingDir os"

definition setServiceImagePathDirect :: "env \<Rightarrow> string \<Rightarrow> string \<Rightarrow> os \<Rightarrow> error option \<times> os" where
  "setServiceImagePathDirect env serviceName imagePath os =
     setServiceRegistryValue env serviceName [] ''ImagePath'' imagePath os"

definition storeServiceConfigInRegistry ::
  "env \<Rightarrow> string \<Rightarrow> string \<Rightarrow> string \<Rightarrow> string \<Rightarrow> os \<Rightarrow> error option \<times> os" where
  "storeServiceConfigInRegistry env serviceName exePath args workingDir os =
     (case setServiceRegistryValue env serviceName ''Parameters'' ''ExePath'' exePath os of
        (Some err, os1) \<Rightarrow> (Some (Errorf ''failed to set ExePath: '' (Some err)), os1)
      | (None, os1) \<Rightarrow>
          (case (if args \<noteq> []
                 then setServiceRegistryValue env serviceName ''Parameters'' ''Args'' args os1
                 else (None, os1)) of
             (Some err, os2) \<Rightarrow> (Some (Errorf ''failed to set Args: '' (Some err)), os2)
           | (None, os2) \<Rightarrow>
               (case (if workingDir \<noteq> []
                      then setServiceRegistryValue env serviceName ''Parameters'' ''WorkingDir''
                             workingDir os2
                      else (None, os2)) of
                  (Some err, os3) \<Rightarrow> (Some (Errorf ''failed to set WorkingDir: '' (Some err)), os3)
                | (None, os3) \<Rightarrow> (None, os3))))"

definition createServiceWrapper ::
  "env \<Rightarrow> string \<Rightarrow> string \<Rightarrow> string \<Rightarrow> string \<Rightarrow> os \<Rightarrow> (error + string) \<times> os" where
  "createServiceWrapper env serviceName exePath args workingDir os =
     (let (ok, os1) = attempt env OpExecutable True os
      in if \<not> ok
         then (Inl (Errorf ''failed to get current executable path: '' (Some OSError)), os1)
         else (case storeServiceConfigInRegistry env serviceName exePath args workingDir os1 of
                 (Some err, os2) \<Rightarrow>
                   (Inl (Errorf ''failed to store service configuration: '' (Some err)), os2)
               | (None, os2) \<Rightarrow>
                   (Inr ([dquote] @ executable env @ [dquote] @ '' --service-wrapper ''
                           @ serviceName), os2)))"

subsection \<open>Service ids\<close>

definition byte :: "char \<Rightarrow> nat" where
  "byte c = of_char c"

definition in_range :: "nat \<Rightarrow> nat \<Rightarrow> string \<Rightarrow> nat \<Rightarrow> bool" where
  "in_range lo hi s i \<longleftrightarrow> i < length s \<and> lo \<le> byte (s ! i) \<and> byte (s ! i) \<le> hi"

text \<open>
  The number of bytes that ranging over a string consumes for its first rune (package
  \<^verbatim>\<open>unicode/utf8\<close>): the length of a well-formed UTF-8 sequence, and one for a byte that
  starts none.
\<close>

definition rune_width :: "string \<Rightarrow> nat" where
  "rune_width s =
     (if s = [] then 0
      else let b = byte (hd s);
               size2 = (0xC2 \<le> b \<and> b \<le> 0xDF);
               size3 = (0xE0 \<le> b \<and> b \<le> 0xEF);
               size4 = (0xF0 \<le> b \<and> b \<le> 0xF4);
               lo = (if b = 0xE0 then 0xA0 else if b = 0xF0 then 0x90 else 0x80);
               hi = (if b = 0xED then 0x9F else if b = 0xF4 then 0x8F else 0xBF)
           in if \<not> (size2 \<or> size3 \<or> size4) then 1
              else if \<not> in_range lo hi s 1 then 1
              else if size2 then 2
              else if \<not> in_range 0x80 0xBF s 2 then 1
              else if size3 then 3
              else if \<not> in_range 0x80 0xBF s 3 then 1
              else 4)"

definition isAlnum :: "char \<Rightarrow> bool" where
  "isAlnum r \<longleftrightarrow> (CHR ''a'' \<le> r \<and> r \<le> CHR ''z'') \<or> (CHR ''A'' \<le> r \<and> r \<le> CHR ''Z'')
     \<or> (CHR ''0'' \<le> r \<and> r \<le> CHR ''9'')"

text \<open>\<^verbatim>\<open>strings.Map\<close> with the function of \<^verbatim>\<open>generateServiceName\<close>: rune by rune.\<close>

function cleanName :: "string \<Rightarrow> string" where
  "cleanName [] = []"
| "cleanName (c # cs) =
     (if isAlnum c then c # cleanName cs
      else CHR ''_'' # cleanName (drop (rune_width (c # cs) - 1) cs))"
  by pat_completeness auto
termination
  by (relation "measure length") auto

text \<open>The verb \<^verbatim>\<open>%d\<close> of \<^verbatim>\<open>fmt.Sprintf\<close>.\<close>

function dec :: "nat \<Rightarrow> string" where
  "dec n = (if n < 10 then [''0123456789'' ! n]
            else dec (n div 10) @ [''0123456789'' ! (n mod 10)])"
  by pat_completeness auto
termination
  by (relation "measure id") auto

definition fmt_d :: "int \<Rightarrow> string" where
  "fmt_d i = (if i < 0 then CHR ''-'' # dec (nat (- i)) else dec (nat i))"

definition generateServiceName :: "string \<Rightarrow> time \<Rightarrow> string" where
  "generateServiceName displayName tnow =
     ''WSM_'' @ cleanName displayName @ ''_'' @ fmt_d (time_Unix tnow)"

subsection \<open>The snapshot on disk\<close>

text \<open>
  \<^verbatim>\<open>json.MarshalIndent\<close> of the map: the members in the order of their keys, each record
  with the member names of its struct tags, a timestamp as the string that
  \<^verbatim>\<open>Time.MarshalJSON\<close> gives (a parameter of the environment). Marshalling a map of
  such records does not fail.
\<close>

definition service_json :: "env \<Rightarrow> Service \<Rightarrow> (string \<times> jvalue) list" where
  "service_json env s =
     [(''id'', JStr (ID s)), (''name'', JStr (Name s)), (''exePath'', JStr (ExePath s)),
      (''args'', JStr (Args s)), (''workingDir'', JStr (WorkingDir s)),
      (''status'', JStr (Status s)), (''pid'', JNum (PID s)), (''autoStart'', JBool (AutoStart s)),
      (''createdAt'', JStr (time_MarshalJSON env (CreatedAt s))),
      (''updatedAt'', JStr (time_MarshalJSON env (UpdatedAt s)))]"

definition json_Marshal :: "env \<Rightarrow> (string \<times> Service) list \<Rightarrow> snapshot" where
  "json_Marshal env m = map (\<lambda>(k, s). (k, service_json env s)) (sort_key fst m)"







definition saveServices :: "env \<Rightarrow> WindowsServiceManager \<Rightarrow> os \<Rightarrow> os" where
  "saveServices env wsm os =
     (let data = json_Marshal env (services wsm);
          (ok, os1) = attempt env (OpWriteFile (dataFile wsm)) True os
      in if ok then os1\<lparr>files := (files os1)(dataFile wsm \<mapsto> data)\<rparr> else os1)"


subsection \<open>Status resolution and listing\<close>

definition getServiceRealTimeStatus ::
  "env \<Rightarrow> string \<Rightarrow> WindowsServiceManager \<Rightarrow> os \<Rightarrow> (string \<times> int) \<times> WindowsServiceManager \<times> os" where
  "getServiceRealTimeStatus env serviceName wsm os =
     (case cache_Get (statusCache wsm) (now os) serviceName of
        Some cachedStatus \<Rightarrow> ((cs_Status cachedStatus, cs_PID cachedStatus), wsm, os)
      | None \<Rightarrow>
          (let (ok, os1) = scm_OpenService env serviceName os
           in if \<not> ok
              then ((''error'', 0),
                    wsm\<lparr>statusCache := cache_Set (statusCache wsm) (now os1) serviceName ''error'' 0\<rparr>,
                    os1)
              else (let (q, os2) = svc_Query env serviceName os1
                    in case q of
                         None \<Rightarrow>
                           ((''error'', 0),
                            wsm\<lparr>statusCache :=
                                  cache_Set (statusCache wsm) (now os2) serviceName ''error'' 0\<rparr>,
                            svc_Close env serviceName os2)
                       | Some status \<Rightarrow>
                           (let r = (case fst status of
                                       Running \<Rightarrow> (''running'', int (snd status))
                                     | Stopped \<Rightarrow> (''stopped'', 0)
                                     | StartPending \<Rightarrow> (''starting'', 0)
                                     | StopPending \<Rightarrow> (''stopping'', int (snd status))
                                     | _ \<Rightarrow> (''error'', 0))
                            in (r,
                                wsm\<lparr>statusCache :=
                                      cache_Set (statusCache wsm) (now os2) serviceName (fst r) (snd r)\<rparr>,
                                svc_Close env serviceName os2)))))"

text \<open>
  The loop of \<^verbatim>\<open>GetServices\<close> over the map: every record is refreshed in place (the map
  holds pointers) and appended to the result.
\<close>

fun refreshAll ::
  "env \<Rightarrow> (string \<times> Service) list \<Rightarrow> WindowsServiceManager \<Rightarrow> os
     \<Rightarrow> Service list \<times> WindowsServiceManager \<times> os" where
  "refreshAll env [] wsm os = ([], wsm, os)"
| "refreshAll env ((k, service) # rest) wsm os =
     (case getServiceRealTimeStatus env (ID service) wsm os of
        (r, wsm1, os1) \<Rightarrow>
          (let service1 = service\<lparr>Status := fst r, PID := snd r, UpdatedAt := now os1\<rparr>;
               wsm2 = wsm1\<lparr>services := AList.update k service1 (services wsm1)\<rparr>
           in case refreshAll env rest wsm2 os1 of
                (out, wsm3, os3) \<Rightarrow> (service1 # out, wsm3, os3)))"

text \<open>
  The snapshot that \<^verbatim>\<open>GetServices\<close> writes in a goroutine of its own is written here
  when the listing is done.
\<close>

definition GetServices ::
  "env \<Rightarrow> WindowsServiceManager \<Rightarrow> os \<Rightarrow> (error + Service list) \<times> WindowsServiceManager \<times> os" where
  "GetServices env wsm os =
     (case withSCM env
             (\<lambda>wsm os. case refreshAll env (services wsm) wsm os of
                          (out, wsm1, os1) \<Rightarrow> (Inr out, wsm1, os1)) wsm os of
        (Inl err, wsm1, os1) \<Rightarrow> (Inl err, wsm1, os1)
      | (Inr out, wsm1, os1) \<Rightarrow> (Inr out, wsm1, saveServices env wsm1 os1))"

subsection \<open>Life cycle operations\<close>

text \<open>
  The function that \<^verbatim>\<open>CreateService\<close> runs under \<^verbatim>\<open>withSCM\<close>. The start that
  \<^verbatim>\<open>CreateService\<close> schedules in a goroutine one second later is a later call of
  \<open>StartService\<close> and not part of this function.
\<close>

definition create_operation ::
  "env \<Rightarrow> ServiceConfig \<Rightarrow> string \<Rightarrow> string \<Rightarrow> WindowsServiceManager \<Rightarrow> os
     \<Rightarrow> (error + Service) \<times> WindowsServiceManager \<times> os" where
  "create_operation env config serviceName workingDir wsm os =
     (let serviceConfig =
            \<lparr>ServiceType = 0x10, StartType = StartAutomatic, ErrorControl = 1,
             BinaryPathName = [], DisplayName = cfg_Name config,
             Description = ''Service created by Windows Service Manager: '' @ cfg_Name config\<rparr>;
          binaryPath =
            (if cfg_Args config \<noteq> []
             then [dquote] @ cfg_ExePath config @ [dquote] @ '' '' @ cfg_Args config
             else cfg_ExePath config);
          (created, os1) = scm_CreateService env serviceName binaryPath serviceConfig os
      in if \<not> created
         then (Inl (Errorf ''failed to create Windows service: '' (Some OSError)), wsm, os1)
         else
           (case createServiceWrapper env serviceName (cfg_ExePath config) (cfg_Args config)
                   workingDir os1 of
              (Inl err, os2) \<Rightarrow>
                (Inl (Errorf ''failed to create service wrapper: '' (Some err)), wsm,
                 svc_Close env serviceName (snd (svc_Delete env serviceName os2)))
            | (Inr wrapperPath, os2) \<Rightarrow>
                (case setServiceImagePathDirect env serviceName wrapperPath os2 of
                   (Some err, os3) \<Rightarrow>
                     (Inl (Errorf ''failed to set service path: '' (Some err)), wsm,
                      svc_Close env serviceName (snd (svc_Delete env serviceName os3)))
                 | (None, os3) \<Rightarrow>
                     (let (werr, os4) = setServiceWorkingDirectory env serviceName workingDir os3;
                          os5 = (if werr \<noteq> None
                                 then step env (OpPrintf ''Warning: failed to set working directory: '')
                                        Done os4
                                 else os4);
                          service =
                            \<lparr>ID = serviceName, Name = cfg_Name config,
                             ExePath = cfg_ExePath config, Args = cfg_Args config,
                             WorkingDir = workingDir, Status = ''stopped'', PID = 0,
                             AutoStart = False, CreatedAt = now os5, UpdatedAt = now os5\<rparr>
                      in (Inr service, wsm, svc_Close env serviceName os5)))))"

text \<open>\<^verbatim>\<open>os.Stat\<close> of the executable fails in the trace when the file does not exist.\<close>

definition CreateService ::
  "env \<Rightarrow> ServiceConfig \<Rightarrow> WindowsServiceManager \<Rightarrow> os
     \<Rightarrow> (error + Service) \<times> WindowsServiceManager \<times> os" where
  "CreateService env config wsm os =
     (let (found, os0) = attempt env (OpStat (cfg_ExePath config)) True os
      in if \<not> found
         then (Inl (Errorf (''executable does not exist: '' @ cfg_ExePath config) None), wsm, os0)
         else
           (let serviceName = generateServiceName (cfg_Name config) (now os0)
            in if map_of (services wsm) serviceName \<noteq> None
               then (Inl (Errorf (''service name already exists: '' @ serviceName) None), wsm, os0)
               else
                 (let workingDir =
                        (if cfg_WorkingDir config = [] then filepath_Dir env (cfg_ExePath config)
                         else cfg_WorkingDir config)
                  in case withSCM env (create_operation env config serviceName workingDir) wsm os0 of
                       (Inl err, wsm1, os1) \<Rightarrow> (Inl err, wsm1, os1)
                     | (Inr service, wsm1, os1) \<Rightarrow>
                         (let wsm2 = wsm1\<lparr>services := AList.update serviceName service (services wsm1)\<rparr>;
                              os2 = saveServices env wsm2 os1;
                              os3 = emitServicesUpdated env wsm2 os2
                          in (Inr service, wsm2, os3)))))"

definition start_operation ::
  "env \<Rightarrow> string \<Rightarrow> Service \<Rightarrow> WindowsServiceManager \<Rightarrow> os
     \<Rightarrow> (error + unit) \<times> WindowsServiceManager \<times> os" where
  "start_operation env serviceID service wsm os =
     (let (opened, os1) = scm_OpenService env serviceID os
      in if \<not> opened then (Inl errOpen, wsm, os1)
         else
           (let (q, os2) = svc_Query env serviceID os1
            in case q of
                 None \<Rightarrow> (Inl errQuery, wsm, svc_Close env serviceID os2)
               | Some status \<Rightarrow>
                   if fst status = Running
                   then (Inl (Errorf ''service is already running'' None), wsm,
                         svc_Close env serviceID os2)
                   else
                     (let (started, os3) = svc_Start env serviceID os2
                      in if \<not> started
                         then (Inl (Errorf ''failed to start service: '' (Some OSError)), wsm,
                               svc_Close env serviceID os3)
                         else
                           (case waitForServiceState env serviceID Running (30 * second) os3 of
                              (Some err, os4) \<Rightarrow>
                                (let service1 = service\<lparr>Status := ''error'', UpdatedAt := now os4\<rparr>;
                                     wsm1 = wsm\<lparr>services := AList.update serviceID service1 (services wsm)\<rparr>;
                                     os5 = saveServices env wsm1 os4
                                 in (Inl err, wsm1, svc_Close env serviceID os5))
                            | (None, os4) \<Rightarrow>
                                (let (q2, os5) = svc_Query env serviceID os4;
                                     pid = (case q2 of None \<Rightarrow> 0 | Some status2 \<Rightarrow> int (snd status2));
                                     service1 = service\<lparr>Status := ''running'', PID := pid,
                                                  UpdatedAt := now os5\<rparr>;
                                     wsm1 = wsm\<lparr>services := AList.update serviceID service1 (services wsm),
                                              statusCache := cache_Set (statusCache wsm) (now os5)
                                                               serviceID ''running'' pid\<rparr>;
                                     os6 = saveServices env wsm1 os5;
                                     os7 = emitServiceStatusChanged env wsm1 serviceID ''running'' pid os6
                                 in (Inr (), wsm1, svc_Close env serviceID os7))))))"

definition StartService ::
  "env \<Rightarrow> string \<Rightarrow> WindowsServiceManager \<Rightarrow> os \<Rightarrow> (error + unit) \<times> WindowsServiceManager \<times> os" where
  "StartService env serviceID wsm os =
     (case map_of (services wsm) serviceID of
        None \<Rightarrow> (Inl (errNotExist serviceID), wsm, os)
      | Some service \<Rightarrow> withSCM env (start_operation env serviceID service) wsm os)"

definition stop_operation ::
  "env \<Rightarrow> string \<Rightarrow> Service \<Rightarrow> WindowsServiceManager \<Rightarrow> os
     \<Rightarrow> (error + unit) \<times> WindowsServiceManager \<times> os" where
  "stop_operation env serviceID service wsm os =
     (let (opened, os1) = scm_OpenService env serviceID os
      in if \<not> opened then (Inl errOpen, wsm, os1)
         else
           (let (q, os2) = svc_Query env serviceID os1
            in case q of
                 None \<Rightarrow> (Inl errQuery, wsm, svc_Close env serviceID os2)
               | Some status \<Rightarrow>
                   if fst status = Stopped
                   then
                     (let service1 = service\<lparr>Status := ''stopped'', PID := 0, UpdatedAt := now os2\<rparr>;
                          wsm1 = wsm\<lparr>services := AList.update serviceID service1 (services wsm)\<rparr>;
                          os3 = saveServices env wsm1 os2
                      in (Inr (), wsm1, svc_Close env serviceID os3))
                   else
                     (let (sent, os3) = svc_Control env serviceID Stop os2
                      in if \<not> sent
                         then (Inl (Errorf ''failed to send stop signal: '' (Some OSError)), wsm,
                               svc_Close env serviceID os3)
                         else
                           (case waitForServiceState env serviceID Stopped (30 * second) os3 of
                              (Some err, os4) \<Rightarrow> (Inl err, wsm, svc_Close env serviceID os4)
                            | (None, os4) \<Rightarrow>
                                (let service1 = service\<lparr>Status := ''stopped'', PID := 0,
                                                  UpdatedAt := now os4\<rparr>;
                                     wsm1 = wsm\<lparr>services := AList.update serviceID service1 (services wsm),
                                              statusCache := cache_Set (statusCache wsm) (now os4)
                                                               serviceID ''stopped'' 0\<rparr>;
                                     os5 = saveServices env wsm1 os4;
                                     os6 = emitServiceStatusChanged env wsm1 serviceID ''stopped'' 0 os5
                                 in (Inr (), wsm1, svc_Close env serviceID os6))))))"

definition StopService ::
  "env \<Rightarrow> string \<Rightarrow> WindowsServiceManager \<Rightarrow> os \<Rightarrow> (error + unit) \<times> WindowsServiceManager \<times> os" where
  "StopService env serviceID wsm os =
     (case map_of (services wsm) serviceID of
        None \<Rightarrow> (Inl (errNotExist serviceID), wsm, os)
      | Some service \<Rightarrow> withSCM env (stop_operation env serviceID service) wsm os)"

text \<open>The stop that \<^verbatim>\<open>DeleteService\<close> tries first: its results are dropped.\<close>

definition best_effort_stop :: "env \<Rightarrow> string \<Rightarrow> os \<Rightarrow> os" where
  "best_effort_stop env serviceID os =
     (let (q, os1) = svc_Query env serviceID os
      in case q of
           None \<Rightarrow> os1
         | Some status \<Rightarrow>
             if fst status \<noteq> Stopped
             then snd (waitForServiceState env serviceID Stopped (30 * second)
                         (snd (svc_Control env serviceID Stop os1)))
             else os1)"

definition delete_operation ::
  "env \<Rightarrow> string \<Rightarrow> WindowsServiceManager \<Rightarrow> os
     \<Rightarrow> (error + unit) \<times> WindowsServiceManager \<times> os" where
  "delete_operation env serviceID wsm os =
     (let (opened, os1) = scm_OpenService env serviceID os
      in if \<not> opened then (Inl errOpen, wsm, os1)
         else
           (let os2 = best_effort_stop env serviceID os1;
                (deleted, os3) = svc_Delete env serviceID os2
            in if \<not> deleted then (Inl errDelete, wsm, svc_Close env serviceID os3)
               else
                 (let wsm1 = wsm\<lparr>services := AList.delete serviceID (services wsm),
                              statusCache := cache_Remove (statusCache wsm) serviceID\<rparr>;
                      os4 = saveServices env wsm1 os3;
                      os5 = emitServicesUpdated env wsm1 os4
                  in (Inr (), wsm1, svc_Close env serviceID os5))))"

definition DeleteService ::
  "env \<Rightarrow> string \<Rightarrow> WindowsServiceManager \<Rightarrow> os \<Rightarrow> (error + unit) \<times> WindowsServiceManager \<times> os" where
  "DeleteService env serviceID wsm os =
     (case map_of (services wsm) serviceID of
        None \<Rightarrow> (Inl (errNotExist serviceID), wsm, os)
      | Some service \<Rightarrow> withSCM env (delete_operation env serviceID) wsm os)"

definition autostart_operation ::
  "env \<Rightarrow> string \<Rightarrow> bool \<Rightarrow> Service \<Rightarrow> WindowsServiceManager \<Rightarrow> os
     \<Rightarrow> (error + unit) \<times> WindowsServiceManager \<times> os" where
  "autostart_operation env serviceID enabled service wsm os =
     (let (opened, os1) = scm_OpenService env serviceID os
      in if \<not> opened then (Inl errOpen, wsm, os1)
         else
           (let (c, os2) = svc_Config env serviceID os1
            in case c of
                 None \<Rightarrow>
                   (Inl (Errorf ''failed to get service configuration: '' (Some OSError)), wsm,
                    svc_Close env serviceID os2)
               | Some config \<Rightarrow>
                   (let config1 = config\<lparr>StartType := (if enabled then StartAutomatic else StartManual)\<rparr>;
                        (updated, os3) = svc_UpdateConfig env serviceID config1 os2
                    in if \<not> updated
                       then (Inl (Errorf ''failed to update service configuration: '' (Some OSError)),
                             wsm, svc_Close env serviceID os3)
                       else
                         (let service1 = service\<lparr>AutoStart := enabled, UpdatedAt := now os3\<rparr>;
                              wsm1 = wsm\<lparr>services := AList.update serviceID service1 (services wsm)\<rparr>;
                              os4 = saveServices env wsm1 os3
                          in (Inr (), wsm1, svc_Close env serviceID os4)))))"

definition SetServiceAutoStart ::
  "env \<Rightarrow> string \<Rightarrow> bool \<Rightarrow> WindowsServiceManager \<Rightarrow> os
     \<Rightarrow> (error + unit) \<times> WindowsServiceManager \<times> os" where
  "SetServiceAutoStart env serviceID enabled wsm os =
     (case map_of (services wsm) serviceID of
        None \<Rightarrow> (Inl (errNotExist serviceID), wsm, os)
      | Some service \<Rightarrow> withSCM env (autostart_operation env serviceID enabled service) wsm os)"

definition GetServiceAutoStart :: "WindowsServiceManager \<Rightarrow> string \<Rightarrow> bool" where
  "GetServiceAutoStart wsm serviceID =
     (case map_of (services wsm) serviceID of None \<Rightarrow> False | Some service \<Rightarrow> AutoStart service)"

section \<open>Service host: loading the configuration (wrapper.go)\<close>


section \<open>Notions used to state the properties\<close>

text \<open>
  The state in which an operation finds the platform once it has connected to the service
  control manager and opened the service, and whether both calls succeeded.
\<close>

definition session :: "env \<Rightarrow> string \<Rightarrow> os \<Rightarrow> os" where
  "session env serviceID os = snd (scm_OpenService env serviceID (snd (connectSCM env os)))"

definition session_ok :: "env \<Rightarrow> string \<Rightarrow> os \<Rightarrow> bool" where
  "session_ok env serviceID os \<longleftrightarrow>
     fst (connectSCM env os) \<and> fst (scm_OpenService env serviceID (snd (connectSCM env os)))"

text \<open>The calls that an operation has added to the trace.\<close>

definition issued :: "os \<Rightarrow> os \<Rightarrow> (os_call \<times> outcome) list" where
  "issued os os' = drop (length (trace os)) (trace os')"

text \<open>One round of polling: a query that reports a status, then a sleep of 500 ms.\<close>

definition poll_round :: "string \<Rightarrow> State \<times> nat \<Rightarrow> (os_call \<times> outcome) list" where
  "poll_round name status =
     [(OpQuery name, Reported (fst status) (snd status)), (OpSleep (500 * millisecond), Done)]"

text \<open>A status that lets the wait for \<open>targetState\<close> go on.\<close>

definition undecided :: "State \<Rightarrow> State \<times> nat \<Rightarrow> bool" where
  "undecided targetState status \<longleftrightarrow>
     fst status \<noteq> targetState \<and> \<not> (targetState = Running \<and> fst status = Stopped)"

text \<open>The record of \<open>serviceID\<close> is \<open>service\<close> marked with the status \<open>error\<close>.\<close>

definition errored :: "WindowsServiceManager \<Rightarrow> string \<Rightarrow> Service \<Rightarrow> bool" where
  "errored wsm serviceID service \<longleftrightarrow>
     (\<exists>t. map_of (services wsm) serviceID = Some (service\<lparr>Status := ''error'', UpdatedAt := t\<rparr>))"

text \<open>Calls among which there is no sleep.\<close>

definition calm :: "(os_call \<times> outcome) list \<Rightarrow> bool" where
  "calm ev \<longleftrightarrow> list_all (\<lambda>e. \<forall>d. fst e \<noteq> OpSleep d) ev"

definition calmly :: "os \<Rightarrow> os \<Rightarrow> bool" where
  "calmly os os' \<longleftrightarrow> (\<exists>ev. trace os' = trace os @ ev \<and> calm ev) \<and> now os \<le> now os'"

text \<open>
  A run of \<open>waitLoop\<close> from \<open>os\<close> to \<open>os'\<close> with result \<open>r\<close>: the rounds \<open>obs\<close> that did
  not decide, then the calls \<open>fin\<close> that did.
\<close>

definition polled ::
  "string \<Rightarrow> State \<Rightarrow> time \<Rightarrow> os \<Rightarrow> error option \<Rightarrow> os \<Rightarrow> (State \<times> nat) list
     \<Rightarrow> (os_call \<times> outcome) list \<Rightarrow> bool" where
  "polled name targetState deadline os r os' obs fin \<longleftrightarrow>
      trace os' = trace os @ concat (map (poll_round name) obs) @ fin
    \<and> list_all (undecided targetState) obs
    \<and> int (length obs) * (500 * millisecond) < max 0 (deadline - now os) + 500 * millisecond
    \<and> now os \<le> now os'
    \<and> scm os' = scm os \<and> registry os' = registry os \<and> files os' = files os
    \<and> (case r of
          None \<Rightarrow> (\<exists>p. fin = [(OpQuery name, Reported targetState p)])
        | Some e \<Rightarrow>
            (e = errTimeout \<and> fin = [] \<and> deadline \<le> now os')
          \<or> (e = errFailedToStart \<and> targetState = Running
               \<and> (\<exists>p. fin = [(OpQuery name, Reported Stopped p)]))
          \<or> (e = errQuery \<and> fin = [(OpQuery name, Failed)]))"


text \<open>Calls to the registry and for the path of the running program.\<close>

definition reg_call :: "os_call \<Rightarrow> bool" where
  "reg_call c \<longleftrightarrow>
     (case c of
        OpRegOpenKey k \<Rightarrow> True
      | OpRegCreateKey k \<Rightarrow> True
      | OpRegSetValue k n v \<Rightarrow> True
      | OpRegCloseKey k \<Rightarrow> True
      | OpExecutable \<Rightarrow> True
      | _ \<Rightarrow> False)"

definition regs :: "(os_call \<times> outcome) list \<Rightarrow> bool" where
  "regs ev \<longleftrightarrow> list_all (\<lambda>e. reg_call (fst e)) ev"

definition reg_only :: "os \<Rightarrow> os \<Rightarrow> bool" where
  "reg_only os os' \<longleftrightarrow> scm os' = scm os \<and> (\<exists>ev. trace os' = trace os @ ev \<and> regs ev)"

text \<open>What a run of the function under \<open>withSCM\<close> can be.\<close>

definition create_failed :: "string \<Rightarrow> os \<Rightarrow> error + Service \<Rightarrow> os \<Rightarrow> bool" where
  "create_failed name os r os1 \<longleftrightarrow>
     r = Inl (Errorf ''failed to create Windows service: '' (Some OSError))
     \<and> (\<exists>bp. trace os1 = trace os @ [(OpCreateService name bp, Failed)])"

definition create_rolled_back :: "string \<Rightarrow> os \<Rightarrow> error + Service \<Rightarrow> os \<Rightarrow> bool" where
  "create_rolled_back name os r os1 \<longleftrightarrow>
     (\<exists>e. r = Inl (Errorf ''failed to create service wrapper: '' (Some e))
         \<or> r = Inl (Errorf ''failed to set service path: '' (Some e)))
     \<and> (\<exists>bp ev out.
           trace os1 = trace os @ (OpCreateService name bp, Done) # ev
                         @ [(OpDelete name, out), (OpClose name, Done)]
         \<and> regs ev \<and> (out = Done \<longrightarrow> scm os1 name = None))"

definition create_done :: "string \<Rightarrow> os \<Rightarrow> error + Service \<Rightarrow> os \<Rightarrow> bool" where
  "create_done name os r os1 \<longleftrightarrow>
     (\<exists>s. r = Inr s \<and> ID s = name \<and> AutoStart s = False)
     \<and> (\<exists>bp ev w.
           trace os1 = trace os @ (OpCreateService name bp, Done) # ev @ w @ [(OpClose name, Done)]
         \<and> regs ev
         \<and> (w = [] \<or> w = [(OpPrintf ''Warning: failed to set working directory: '', Done)]))
     \<and> (\<exists>c. scm os1 name = Some c \<and> StartType c = StartAutomatic)"

text \<open>What a run of \<open>CreateService\<close> that does not reach that function can be.\<close>

definition create_rejected :: "ServiceConfig \<Rightarrow> os \<Rightarrow> error + Service \<Rightarrow> os \<Rightarrow> bool" where
  "create_rejected config os r os' \<longleftrightarrow>
     (r = Inl (Errorf (''executable does not exist: '' @ cfg_ExePath config) None)
        \<and> issued os os' = [(OpStat (cfg_ExePath config), Failed)])
   \<or> ((\<exists>name. r = Inl (Errorf (''service name already exists: '' @ name) None))
        \<and> issued os os' = [(OpStat (cfg_ExePath config), Done)])
   \<or> (r = Inl errConnect
        \<and> issued os os' = [(OpStat (cfg_ExePath config), Done), (OpConnect, Failed)])"

text \<open>Calls among which there is no request to delete a service.\<close>

definition keeps :: "(os_call \<times> outcome) list \<Rightarrow> bool" where
  "keeps ev \<longleftrightarrow> list_all (\<lambda>e. \<forall>n. fst e \<noteq> OpDelete n) ev"

text \<open>A record as a listing refreshes it.\<close>

definition refreshed :: "Service \<Rightarrow> Service \<Rightarrow> bool" where
  "refreshed service s \<longleftrightarrow>
     (\<exists>st pid t. s = service\<lparr>Status := st, PID := pid, UpdatedAt := t\<rparr>)"



section \<open>Concrete environments and states\<close>

text \<open>
  A platform on which no call fails and no call takes time; a service runs from its
  start request until a stop request.
\<close>

definition env_quiet :: env where
  "env_quiet =
     \<lparr>fails = (\<lambda>os c. False), latency = (\<lambda>os c. 0),
      status_of = (\<lambda>os name.
         if (OpStart name, Done) \<in> set (trace os) \<and> (OpControl name Stop, Done) \<notin> set (trace os)
         then (Running, 4242) else (Stopped, 0)),
      executable = ''C:/wsm.exe'', filepath_Dir = (\<lambda>p. ''C:/apps''),
      time_MarshalJSON = fmt_d, time_UnmarshalJSON = (\<lambda>s. Some 0)\<rparr>"

definition os_boot :: os where
  "os_boot = \<lparr>scm = Map.empty, registry = Map.empty, files = Map.empty, now = 0, trace = []\<rparr>"

definition cfg_app :: ServiceConfig where
  "cfg_app = \<lparr>cfg_Name = ''My App'', cfg_ExePath = ''C:/apps/app.exe'', cfg_Args = [],
     cfg_WorkingDir = [], cfg_LogPath = []\<rparr>"

definition svc_demo :: Service where
  "svc_demo = \<lparr>ID = ''WSM_app_0'', Name = ''app'', ExePath = ''C:/apps/app.exe'', Args = [],
     WorkingDir = ''C:/apps'', Status = ''stopped'', PID = 0, AutoStart = False,
     CreatedAt = 0, UpdatedAt = 0\<rparr>"

definition wsm_demo :: WindowsServiceManager where
  "wsm_demo = (NewWindowsServiceManager ''data.json'')\<lparr>services := [(''WSM_app_0'', svc_demo)]\<rparr>"

definition os_demo :: os where
  "os_demo = os_boot\<lparr>scm := [''WSM_app_0'' \<mapsto>
     \<lparr>ServiceType = 0x10, StartType = StartAutomatic, ErrorControl = 1,
      BinaryPathName = ''C:/apps/app.exe'', DisplayName = ''app'', Description = []\<rparr>]\<rparr>"

definition demo_start :: "(error + unit) \<times> WindowsServiceManager \<times> os" where
  "demo_start = StartService env_quiet ''WSM_app_0'' wsm_demo os_demo"

definition demo_stop :: "(error + unit) \<times> WindowsServiceManager \<times> os" where
  "demo_stop = StopService env_quiet ''WSM_app_0'' wsm_demo os_demo"

text \<open>A platform on which no service can be opened.\<close>

definition env_closed :: env where
  "env_closed = env_quiet\<lparr>fails := (\<lambda>os c. case c of OpOpenService n \<Rightarrow> True | _ \<Rightarrow> False)\<rparr>"

definition demo_status :: "(string \<times> int) \<times> WindowsServiceManager \<times> os" where
  "demo_status = getServiceRealTimeStatus env_closed ''WSM_app_0'' wsm_demo os_demo"





definition demo_created :: "(error + Service) \<times> WindowsServiceManager \<times> os" where
  "demo_created = CreateService env_quiet cfg_app (NewWindowsServiceManager ''data.json'') os_boot"


text \<open>
  A platform on which a service runs until a stop request and no service object can be
  deleted; a manager whose one service is recorded as running.
\<close>

definition env_undeletable :: env where
  "env_undeletable =
     env_quiet\<lparr>fails := (\<lambda>os c. case c of OpDelete n \<Rightarrow> True | _ \<Rightarrow> False),
               status_of := (\<lambda>os name.
                  if (OpControl name Stop, Done) \<in> set (trace os)
                  then (Stopped, 0) else (Running, 4242))\<rparr>"

definition svc_running :: Service where
  "svc_running = svc_demo\<lparr>Status := ''running'', PID := 4242\<rparr>"

definition wsm_running :: WindowsServiceManager where
  "wsm_running =
     (NewWindowsServiceManager ''data.json'')\<lparr>services := [(''WSM_app_0'', svc_running)]\<rparr>"

definition demo_delete :: "(error + unit) \<times> WindowsServiceManager \<times> os" where
  "demo_delete = DeleteService env_undeletable ''WSM_app_0'' wsm_running os_demo"

definition demo_listing :: "(error + Service list) \<times> WindowsServiceManager \<times> os" where
  "demo_listing = GetServices env_undeletable (fst (snd demo_delete)) (snd (snd demo_delete))"




section \<open>Properties of the status cache\<close>

lemma time_Sub_le_iff:
  assumes "minDuration \<le> d" "d < maxDuration"
  shows "time_Sub t u \<le> d \<longleftrightarrow> t - u \<le> d"
  using assms by (auto simp: time_Sub_def)

lemma five_seconds_is_duration:
  "minDuration \<le> 5 * second" "5 * second < maxDuration"
  by (simp_all add: minDuration_def maxDuration_def second_def)

lemma stale_iff:
  "time_Since tnow t > 5 * second \<longleftrightarrow> tnow - t > 5 * second"
  using time_Sub_le_iff [OF five_seconds_is_duration, of tnow t]
  by (auto simp: time_Since_def)

text \<open>
  C6. With the TTL of five seconds: a \<open>Set\<close> at instant \<open>t0\<close> followed by a \<open>Get\<close> at an
  instant \<open>t1\<close> no more than the TTL later returns exactly the stored status and pid; a
  \<open>Get\<close> of an absent key is a miss; and a \<open>Get\<close> of an entry older than the TTL is a miss
  although the entry is still in the map (nothing removed it).
\<close>

theorem cache_read_semantics:
  assumes "ttl c = 5 * second"
  shows "(t1 - t0 \<le> 5 * second \<longrightarrow>
            cache_Get (cache_Set c t0 k status pid) t1 k
              = Some \<lparr>cs_Status = status, cs_PID = pid, cs_Timestamp = t0\<rparr>)
       \<and> (cache c k = None \<longrightarrow> cache_Get c t1 k = None)
       \<and> (cache c k = Some e \<and> t1 - cs_Timestamp e > 5 * second \<longrightarrow>
            cache_Get c t1 k = None \<and> cache c k = Some e)"
  using assms stale_iff by (auto simp: cache_Get_def cache_Set_def)

theorem cache_read_semantics_witness:
  "ttl NewServiceStatusCache = 5 * second
   \<and> cache_Get (cache_Set NewServiceStatusCache 0 ''WSM_app_0'' ''running'' 4242) (5 * second)
         ''WSM_app_0''
       = Some \<lparr>cs_Status = ''running'', cs_PID = 4242, cs_Timestamp = 0\<rparr>
   \<and> cache_Get NewServiceStatusCache (5 * second) ''WSM_app_0'' = None
   \<and> cache_Get (cache_Set NewServiceStatusCache 0 ''WSM_app_0'' ''running'' 4242)
         (5 * second + 1) ''WSM_app_0'' = None"
proof -
  have ttl: "ttl NewServiceStatusCache = 5 * second"
    by (simp add: NewServiceStatusCache_def)
  have ttl': "ttl (cache_Set NewServiceStatusCache 0 ''WSM_app_0'' ''running'' 4242) = 5 * second"
    by (simp add: NewServiceStatusCache_def cache_Set_def)
  show ?thesis
    using ttl
      cache_read_semantics [OF ttl, of "5 * second" 0 "''WSM_app_0''" "''running''" 4242]
      cache_read_semantics [OF ttl', of "5 * second + 1" 0 "''WSM_app_0''" "''running''" 4242
        "\<lparr>cs_Status = ''running'', cs_PID = 4242, cs_Timestamp = 0\<rparr>"]
    by (simp add: NewServiceStatusCache_def cache_Set_def)
qed

section \<open>Basic facts about the platform\<close>

lemma step_simps [simp]:
  "trace (step env c out os) = trace os @ [(c, out)]"
  "now (step env c out os) = now os + int (latency env os c)"
  "scm (step env c out os) = scm os"
  "registry (step env c out os) = registry os"
  "files (step env c out os) = files os"
  by (simp_all add: step_def)

lemma svc_Query_None:
  "fst (svc_Query env name os) = None \<Longrightarrow>
     snd (svc_Query env name os) = step env (OpQuery name) Failed os"
  by (simp add: svc_Query_def split: if_splits)

lemma svc_Query_Some:
  "fst (svc_Query env name os) = Some status \<Longrightarrow>
     snd (svc_Query env name os) = step env (OpQuery name) (Reported (fst status) (snd status)) os"
  by (auto simp add: svc_Query_def split: if_splits)

lemma time_Sleep_simps [simp]:
  "trace (time_Sleep env d os) = trace os @ [(OpSleep d, Done)]"
  "now (time_Sleep env d os) = now os + int (latency env os (OpSleep d)) + max 0 d"
  "scm (time_Sleep env d os) = scm os"
  "registry (time_Sleep env d os) = registry os"
  "files (time_Sleep env d os) = files os"
  by (simp_all add: time_Sleep_def Let_def)

lemma waitLoop_run:
  "waitLoop env name targetState deadline os = (r, os') \<Longrightarrow>
     \<exists>obs fin. polled name targetState deadline os r os' obs fin"
proof (induction env name targetState deadline os arbitrary: r os' rule: waitLoop.induct)
  case (1 env name targetState deadline os)
  show ?case
  proof (cases "now os < deadline")
    case False
    with "1.prems" have "r = Some errTimeout" "os' = os" by auto
    with False have "polled name targetState deadline os r os' [] []"
      by (simp add: polled_def millisecond_def)
    then show ?thesis by blast
  next
    case live: True
    show ?thesis
    proof (cases "fst (svc_Query env name os)")
      case None
      with live "1.prems" have "r = Some errQuery" "os' = step env (OpQuery name) Failed os"
        by (auto simp: svc_Query_None)
      then have "polled name targetState deadline os r os' [] [(OpQuery name, Failed)]"
        by (simp add: polled_def millisecond_def)
      then show ?thesis by blast
    next
      case (Some status)
      note q = svc_Query_Some [OF Some]
      consider (hit) "fst status = targetState"
        | (stopped) "fst status \<noteq> targetState" "targetState = Running" "fst status = Stopped"
        | (again) "undecided targetState status"
        by (auto simp: undecided_def)
      then show ?thesis
      proof cases
        case hit
        with live Some "1.prems" q have "r = None"
          "os' = step env (OpQuery name) (Reported targetState (snd status)) os"
          by auto
        then have "polled name targetState deadline os r os' []
                     [(OpQuery name, Reported targetState (snd status))]"
          by (simp add: polled_def millisecond_def)
        then show ?thesis by blast
      next
        case stopped
        with live Some "1.prems" q have "r = Some errFailedToStart"
          "os' = step env (OpQuery name) (Reported Stopped (snd status)) os"
          by auto
        with stopped have "polled name targetState deadline os r os' []
                     [(OpQuery name, Reported Stopped (snd status))]"
          by (simp add: polled_def millisecond_def)
        then show ?thesis by blast
      next
        case again
        define os1 where "os1 = time_Sleep env (500 * millisecond) (snd (svc_Query env name os))"
        from again have a: "fst status \<noteq> targetState"
          and b: "\<not> (targetState = Running \<and> fst status = Stopped)"
          by (auto simp: undecided_def)
        from a b live Some "1.prems"
        have rec: "waitLoop env name targetState deadline
                     (time_Sleep env (500 * millisecond) (snd (svc_Query env name os))) = (r, os')"
          by auto
        from "1.IH" [OF live Some a b rec]
        obtain obs fin where ih: "polled name targetState deadline os1 r os' obs fin"
          unfolding os1_def by blast
        have t1: "trace os1 = trace os @ poll_round name status"
          by (simp add: os1_def q poll_round_def)
        have n1: "now os + 500 * millisecond \<le> now os1"
          by (simp add: os1_def q millisecond_def)
        have s1: "scm os1 = scm os" "registry os1 = registry os" "files os1 = files os"
          by (simp_all add: os1_def q)
        from ih have bound:
          "int (length obs) * (500 * millisecond) < max 0 (deadline - now os1) + 500 * millisecond"
          by (simp add: polled_def)
        have bound': "int (length (status # obs)) * (500 * millisecond)
                        < max 0 (deadline - now os) + 500 * millisecond"
          using bound n1 live by (auto simp: millisecond_def max_def split: if_splits)
        have "polled name targetState deadline os r os' (status # obs) fin"
          using ih bound' n1 s1 again t1
          by (simp add: polled_def millisecond_def)
        then show ?thesis by blast
      qed
    qed
  qed
qed


lemma attempt_eq:
  "attempt env c possible os =
     (possible \<and> \<not> fails env os c,
      step env c (if possible \<and> \<not> fails env os c then Done else Failed) os)"
  by (simp add: attempt_def Let_def)

lemma err_distinct [simp]:
  "errFailedToStart \<noteq> errTimeout" "errTimeout \<noteq> errFailedToStart"
  "errQuery \<noteq> errTimeout" "errTimeout \<noteq> errQuery"
  "errQuery \<noteq> errFailedToStart" "errFailedToStart \<noteq> errQuery"
  by (simp_all add: errFailedToStart_def errTimeout_def errQuery_def)

lemma session_steps:
  assumes "session_ok env serviceID os"
  shows "connectSCM env os = (True, step env OpConnect Done os)"
    and "scm_OpenService env serviceID (step env OpConnect Done os) = (True, session env serviceID os)"
    and "trace (session env serviceID os)
           = trace os @ [(OpConnect, Done), (OpOpenService serviceID, Done)]"
    and "now os \<le> now (session env serviceID os)"
    and "scm (session env serviceID os) = scm os"
  using assms
  by (auto simp: session_ok_def session_def connectSCM_def scm_OpenService_def attempt_eq)

lemma saveServices_trace:
  "\<exists>w. trace (saveServices env wsm os) = trace os @ [(OpWriteFile (dataFile wsm), w)]"
  by (simp add: saveServices_def attempt_eq Let_def)

lemma saveServices_simps [simp]:
  "now os \<le> now (saveServices env wsm os)"
  "scm (saveServices env wsm os) = scm os"
  "registry (saveServices env wsm os) = registry os"
  by (simp_all add: saveServices_def attempt_eq Let_def)

lemma emitServiceStatusChanged_simps [simp]:
  "now os \<le> now (emitServiceStatusChanged env wsm serviceID st pid os)"
  "scm (emitServiceStatusChanged env wsm serviceID st pid os) = scm os"
  by (simp_all add: emitServiceStatusChanged_def)

lemma polls_bound:
  assumes "int n * (500 * millisecond) < max 0 (30 * second) + 500 * millisecond"
  shows "n \<le> 60"
  using assms by (simp add: millisecond_def second_def)


lemma calmly_refl [simp]: "calmly os os"
  by (simp add: calmly_def calm_def)

lemma calmly_trans: "calmly os1 os2 \<Longrightarrow> calmly os2 os3 \<Longrightarrow> calmly os1 os3"
  by (auto simp: calmly_def calm_def)

lemma calmly_step: "(\<And>d. c \<noteq> OpSleep d) \<Longrightarrow> calmly os (step env c out os)"
  by (simp add: calmly_def calm_def)

lemma calmly_ops:
  "calmly os (snd (svc_Query env name os))"
  "calmly os (saveServices env wsm os)"
  "calmly os (emitServiceStatusChanged env wsm name st pid os)"
  "calmly os (svc_Close env name os)"
  "calmly os (scm_Disconnect env os)"
  by (auto simp: svc_Query_def saveServices_def emitServiceStatusChanged_def svc_Close_def
        scm_Disconnect_def attempt_eq calmly_def calm_def Let_def)

lemma calmly_close_disconnect:
  assumes "calmly os os1"
  shows "calmly os (scm_Disconnect env (svc_Close env name os1))"
proof -
  have "calmly os1 (svc_Close env name os1)"
    by (rule calmly_ops(4))
  with assms have "calmly os (svc_Close env name os1)"
    by (rule calmly_trans)
  moreover have "calmly (svc_Close env name os1) (scm_Disconnect env (svc_Close env name os1))"
    by (rule calmly_ops(5))
  ultimately show ?thesis
    by (rule calmly_trans)
qed

lemma start_tail_err:
  "calmly os5 (scm_Disconnect env (svc_Close env name (saveServices env wsm1 os5)))"
proof -
  have "calmly os5 (saveServices env wsm1 os5)"
    by (rule calmly_ops(2))
  then show ?thesis
    by (rule calmly_close_disconnect)
qed

lemma start_tail_ok:
  "calmly os5 (scm_Disconnect env (svc_Close env name
     (emitServiceStatusChanged env wsm1 name st pid
        (saveServices env wsm1 (snd (svc_Query env name os5))))))"
proof -
  define os6 where "os6 = snd (svc_Query env name os5)"
  define os7 where "os7 = saveServices env wsm1 os6"
  have "calmly os5 os6"
    unfolding os6_def by (rule calmly_ops(1))
  moreover have "calmly os6 os7"
    unfolding os7_def by (rule calmly_ops(2))
  ultimately have "calmly os5 os7"
    by (rule calmly_trans)
  moreover have "calmly os7 (emitServiceStatusChanged env wsm1 name st pid os7)"
    by (rule calmly_ops(3))
  ultimately have "calmly os5 (emitServiceStatusChanged env wsm1 name st pid os7)"
    by (rule calmly_trans)
  then show ?thesis
    unfolding os7_def os6_def by (rule calmly_close_disconnect)
qed

lemma withSCM_connected:
  assumes "connectSCM env os = (True, os1)" and "operation wsm os1 = res"
  shows "withSCM env operation wsm os = (fst res, fst (snd res), scm_Disconnect env (snd (snd res)))"
  using assms by (auto simp add: withSCM_def case_prod_beta)

lemma start_operation_not_started:
  assumes "scm_OpenService env serviceID os = (True, os1)"
      and "svc_Query env serviceID os1 = (Some status, os2)" "fst status \<noteq> Running"
      and "svc_Start env serviceID os2 = (False, os3)"
  shows "start_operation env serviceID service wsm os =
           (Inl (Errorf ''failed to start service: '' (Some OSError)), wsm,
            svc_Close env serviceID os3)"
  by (simp add: start_operation_def assms)

lemma start_operation_wait_failed:
  assumes "scm_OpenService env serviceID os = (True, os1)"
      and "svc_Query env serviceID os1 = (Some status, os2)" "fst status \<noteq> Running"
      and "svc_Start env serviceID os2 = (True, os3)"
      and "waitForServiceState env serviceID Running (30 * second) os3 = (Some err, os4)"
      and "wsm1 = wsm\<lparr>services := AList.update serviceID
                    (service\<lparr>Status := ''error'', UpdatedAt := now os4\<rparr>) (services wsm)\<rparr>"
  shows "start_operation env serviceID service wsm os =
           (Inl err, wsm1, svc_Close env serviceID (saveServices env wsm1 os4))"
  by (simp add: start_operation_def assms Let_def)

lemma start_operation_running:
  assumes "scm_OpenService env serviceID os = (True, os1)"
      and "svc_Query env serviceID os1 = (Some status, os2)" "fst status \<noteq> Running"
      and "svc_Start env serviceID os2 = (True, os3)"
      and "waitForServiceState env serviceID Running (30 * second) os3 = (None, os4)"
  shows "\<exists>wsm1 pid. start_operation env serviceID service wsm os =
           (Inr (), wsm1, svc_Close env serviceID
              (emitServiceStatusChanged env wsm1 serviceID ''running'' pid
                 (saveServices env wsm1 (snd (svc_Query env serviceID os4)))))"
  by (simp add: start_operation_def assms Let_def case_prod_beta) blast

section \<open>Starting a service\<close>

text \<open>
  C5. \<open>StartService\<close> on a known service that the platform reports as not running: the
  manager connects, opens the service, queries it and issues the start request. If the
  request succeeds it polls: rounds of one query and one sleep of 500 ms, at most 60 of
  them, as long as the status is neither running nor stopped, the deadline being 30 s
  after the start request returned. A query that reports running ends the wait with
  success; one that reports stopped ends it with the error \<open>service failed to start\<close>,
  which is not the timeout error; when the deadline has passed (at least 30 s after the
  call began) the result is the timeout error. On every error of the wait the record of
  the service is marked with the status \<open>error\<close> and the error is returned.
\<close>

theorem StartService_polls:
  assumes known: "map_of (services wsm) serviceID = Some service"
      and sess: "session_ok env serviceID os"
      and q0: "fst (svc_Query env serviceID (session env serviceID os)) = Some status"
      and idle: "fst status \<noteq> Running"
      and run: "StartService env serviceID wsm os = (r, wsm', os')"
  shows "\<exists>out obs fin rest.
           trace os' = trace os
              @ [(OpConnect, Done), (OpOpenService serviceID, Done),
                 (OpQuery serviceID, Reported (fst status) (snd status)), (OpStart serviceID, out)]
              @ concat (map (poll_round serviceID) obs) @ fin @ rest
         \<and> calm rest
         \<and> (out = Failed \<longrightarrow> obs = [] \<and> fin = [] \<and> wsm' = wsm
               \<and> r = Inl (Errorf ''failed to start service: '' (Some OSError)))
         \<and> (out \<noteq> Failed \<longrightarrow> out = Done
               \<and> list_all (undecided Running) obs \<and> length obs \<le> 60
               \<and> ((r = Inr () \<and> (\<exists>p. fin = [(OpQuery serviceID, Reported Running p)]))
                 \<or> (r = Inl errFailedToStart \<and> errored wsm' serviceID service
                      \<and> (\<exists>p. fin = [(OpQuery serviceID, Reported Stopped p)]))
                 \<or> (r = Inl errTimeout \<and> errored wsm' serviceID service
                      \<and> fin = [] \<and> now os + 30 * second \<le> now os')
                 \<or> (r = Inl errQuery \<and> errored wsm' serviceID service
                      \<and> fin = [(OpQuery serviceID, Failed)])))
         \<and> errFailedToStart \<noteq> errTimeout"
proof -
  define os2 where "os2 = session env serviceID os"
  define os3 where "os3 = snd (svc_Query env serviceID os2)"
  define started where "started = fst (svc_Start env serviceID os3)"
  define os4 where "os4 = snd (svc_Start env serviceID os3)"
  define out where "out = (if started then Done else Failed)"
  note s = session_steps [OF sess, folded os2_def]
  have q: "svc_Query env serviceID os2 = (Some status, os3)"
    using q0 by (simp add: os2_def os3_def prod_eq_iff)
  have t3: "trace os3 = trace os @ [(OpConnect, Done), (OpOpenService serviceID, Done),
              (OpQuery serviceID, Reported (fst status) (snd status))]"
    using svc_Query_Some [OF q0] s(3) by (simp add: os3_def os2_def)
  have n3: "now os \<le> now os3"
    using svc_Query_Some [OF q0] s(4) by (simp add: os3_def os2_def)
  have st: "svc_Start env serviceID os3 = (started, os4)"
    by (simp add: started_def os4_def)
  have os4: "os4 = step env (OpStart serviceID) out os3"
    by (simp add: os4_def out_def started_def svc_Start_def attempt_eq)
  have t4: "trace os4 = trace os @ [(OpConnect, Done), (OpOpenService serviceID, Done),
              (OpQuery serviceID, Reported (fst status) (snd status)), (OpStart serviceID, out)]"
    by (simp add: os4 t3)
  have n4: "now os \<le> now os4"
    using n3 by (simp add: os4)
  have start: "StartService env serviceID wsm os
                 = withSCM env (start_operation env serviceID service) wsm os"
    by (simp add: StartService_def known)
  show ?thesis
  proof (cases started)
    case False
    with st have st': "svc_Start env serviceID os3 = (False, os4)" by simp
    have "withSCM env (start_operation env serviceID service) wsm os
            = (Inl (Errorf ''failed to start service: '' (Some OSError)), wsm,
               scm_Disconnect env (svc_Close env serviceID os4))"
      by (simp add: withSCM_connected [of env os _ "start_operation env serviceID service" wsm, OF s(1) start_operation_not_started [OF s(2) q idle st']])
    with run start
    have "r = Inl (Errorf ''failed to start service: '' (Some OSError))" "wsm' = wsm"
      "os' = scm_Disconnect env (svc_Close env serviceID os4)"
      by simp_all
    moreover from False have "out = Failed" by (simp add: out_def)
    ultimately show ?thesis
      by (intro exI [of _ Failed] exI [of _ "[]"]
            exI [of _ "[(OpClose serviceID, Done), (OpDisconnect, Done)]"])
         (simp add: t4 svc_Close_def scm_Disconnect_def calm_def)
  next
    case True
    with st have st': "svc_Start env serviceID os3 = (True, os4)" by simp
    from True have out: "out = Done" by (simp add: out_def)
    obtain w os5 where wait: "waitForServiceState env serviceID Running (30 * second) os4 = (w, os5)"
      by (cases "waitForServiceState env serviceID Running (30 * second) os4")
    then obtain obs fin where p: "polled serviceID Running (now os4 + 30 * second) os4 w os5 obs fin"
      using waitLoop_run unfolding waitForServiceState_def by blast
    then have t5: "trace os5 = trace os4 @ concat (map (poll_round serviceID) obs) @ fin"
      and un: "list_all (undecided Running) obs"
      and n5: "now os4 \<le> now os5"
      by (simp_all add: polled_def)
    from p have "length obs \<le> 60"
      by (intro polls_bound) (simp add: polled_def)
    note facts = t5 un this
    show ?thesis
    proof (cases w)
      case None
      with p obtain pid where fin: "fin = [(OpQuery serviceID, Reported Running pid)]"
        by (auto simp: polled_def)
      from wait None have wait': "waitForServiceState env serviceID Running (30 * second) os4 = (None, os5)"
        by simp
      from start_operation_running [OF s(2) q idle st' wait', of service wsm]
      obtain wsm1 pid1 where
        "start_operation env serviceID service wsm (step env OpConnect Done os) =
           (Inr (), wsm1, svc_Close env serviceID
              (emitServiceStatusChanged env wsm1 serviceID ''running'' pid1
                 (saveServices env wsm1 (snd (svc_Query env serviceID os5)))))"
        by blast
      from withSCM_connected [of env os _ "start_operation env serviceID service" wsm, OF s(1) this] run start
      have "r = Inr ()" and "os' = scm_Disconnect env (svc_Close env serviceID
              (emitServiceStatusChanged env wsm1 serviceID ''running'' pid1
                 (saveServices env wsm1 (snd (svc_Query env serviceID os5)))))"
        by auto
      then have "r = Inr ()" and "calmly os5 os'"
        using start_tail_ok [of os5 env serviceID] by simp_all
      then obtain rest where "trace os' = trace os5 @ rest" "calm rest"
        by (auto simp: calmly_def)
      with \<open>r = Inr ()\<close> fin facts out show ?thesis
        by (intro exI [of _ Done] exI [of _ obs] exI [of _ fin] exI [of _ rest])
           (simp add: t4)
    next
      case (Some e)
      define wsm1 where "wsm1 = wsm\<lparr>services :=
                  AList.update serviceID (service\<lparr>Status := ''error'', UpdatedAt := now os5\<rparr>)
                    (services wsm)\<rparr>"
      from wait Some have wait': "waitForServiceState env serviceID Running (30 * second) os4 = (Some e, os5)"
        by simp
      from withSCM_connected [of env os _ "start_operation env serviceID service" wsm, OF s(1) start_operation_wait_failed [OF s(2) q idle st' wait' wsm1_def]]
        run start
      have "r = Inl e" and "wsm' = wsm1"
        and "os' = scm_Disconnect env (svc_Close env serviceID (saveServices env wsm1 os5))"
        by auto
      then have r: "r = Inl e" and w: "wsm' = wsm1" and "calmly os5 os'"
        using start_tail_err [of os5 env serviceID] by simp_all
      then obtain rest where rest: "trace os' = trace os5 @ rest" "calm rest" "now os5 \<le> now os'"
        by (auto simp: calmly_def)
      have err: "errored wsm' serviceID service"
        unfolding errored_def w wsm1_def by (auto simp: update_conv')
      from p Some have
        "(e = errTimeout \<and> fin = [] \<and> now os4 + 30 * second \<le> now os5)
          \<or> (e = errFailedToStart \<and> (\<exists>p. fin = [(OpQuery serviceID, Reported Stopped p)]))
          \<or> (e = errQuery \<and> fin = [(OpQuery serviceID, Failed)])"
        by (auto simp: polled_def)
      with r err rest facts out n4 show ?thesis
        by (intro exI [of _ Done] exI [of _ obs] exI [of _ fin] exI [of _ rest])
           (auto simp add: t4)
    qed
  qed
qed

theorem StartService_polls_witness:
  "map_of (services wsm_demo) ''WSM_app_0'' = Some svc_demo
   \<and> session_ok env_quiet ''WSM_app_0'' os_demo
   \<and> fst (svc_Query env_quiet ''WSM_app_0'' (session env_quiet ''WSM_app_0'' os_demo)) = Some (Stopped, 0)
   \<and> (\<exists>out obs fin rest.
           trace (snd (snd demo_start)) = trace os_demo
              @ [(OpConnect, Done), (OpOpenService ''WSM_app_0'', Done),
                 (OpQuery ''WSM_app_0'', Reported Stopped 0), (OpStart ''WSM_app_0'', out)]
              @ concat (map (poll_round ''WSM_app_0'') obs) @ fin @ rest
         \<and> calm rest
         \<and> (out = Failed \<longrightarrow> obs = [] \<and> fin = [] \<and> fst (snd demo_start) = wsm_demo
               \<and> fst demo_start = Inl (Errorf ''failed to start service: '' (Some OSError)))
         \<and> (out \<noteq> Failed \<longrightarrow> out = Done
               \<and> list_all (undecided Running) obs \<and> length obs \<le> 60
               \<and> ((fst demo_start = Inr () \<and> (\<exists>p. fin = [(OpQuery ''WSM_app_0'', Reported Running p)]))
                 \<or> (fst demo_start = Inl errFailedToStart \<and> errored (fst (snd demo_start)) ''WSM_app_0'' svc_demo
                      \<and> (\<exists>p. fin = [(OpQuery ''WSM_app_0'', Reported Stopped p)]))
                 \<or> (fst demo_start = Inl errTimeout \<and> errored (fst (snd demo_start)) ''WSM_app_0'' svc_demo
                      \<and> fin = [] \<and> now os_demo + 30 * second \<le> now (snd (snd demo_start)))
                 \<or> (fst demo_start = Inl errQuery \<and> errored (fst (snd demo_start)) ''WSM_app_0'' svc_demo
                      \<and> fin = [(OpQuery ''WSM_app_0'', Failed)])))
         \<and> errFailedToStart \<noteq> errTimeout)"
proof -
  have known: "map_of (services wsm_demo) ''WSM_app_0'' = Some svc_demo"
    by code_simp
  have sess: "session_ok env_quiet ''WSM_app_0'' os_demo"
    by code_simp
  have q0: "fst (svc_Query env_quiet ''WSM_app_0'' (session env_quiet ''WSM_app_0'' os_demo))
              = Some (Stopped, 0)"
    by code_simp
  have run: "StartService env_quiet ''WSM_app_0'' wsm_demo os_demo
               = (fst demo_start, fst (snd demo_start), snd (snd demo_start))"
    by (simp add: demo_start_def)
  from StartService_polls [OF known sess q0 _ run] known sess q0 show ?thesis
    by simp
qed

section \<open>Stopping a service\<close>

lemma stop_operation_already_stopped:
  assumes "scm_OpenService env serviceID os = (True, os1)"
      and "svc_Query env serviceID os1 = (Some status, os2)" "fst status = Stopped"
      and "wsm1 = wsm\<lparr>services := AList.update serviceID
                    (service\<lparr>Status := ''stopped'', PID := 0, UpdatedAt := now os2\<rparr>)
                    (services wsm)\<rparr>"
  shows "stop_operation env serviceID service wsm os =
           (Inr (), wsm1, svc_Close env serviceID (saveServices env wsm1 os2))"
  by (simp add: stop_operation_def assms Let_def)

text \<open>
  C4. \<open>StopService\<close> on a known service that the platform reports as stopped returns
  success. The calls it issues are: connect, open, the query, the write of the snapshot,
  close and disconnect; among them there is no control signal and no sleep. The record
  is set to stopped with pid 0.
\<close>

theorem StopService_idempotent:
  assumes known: "map_of (services wsm) serviceID = Some service"
      and sess: "session_ok env serviceID os"
      and q0: "fst (svc_Query env serviceID (session env serviceID os)) = Some (Stopped, p)"
      and run: "StopService env serviceID wsm os = (r, wsm', os')"
  shows "r = Inr ()
       \<and> (\<exists>w. issued os os' =
              [(OpConnect, Done), (OpOpenService serviceID, Done),
               (OpQuery serviceID, Reported Stopped p), (OpWriteFile (dataFile wsm), w),
               (OpClose serviceID, Done), (OpDisconnect, Done)])
       \<and> list_all (\<lambda>e. (\<forall>c. fst e \<noteq> OpControl serviceID c) \<and> (\<forall>d. fst e \<noteq> OpSleep d))
            (issued os os')
       \<and> (\<exists>t. map_of (services wsm') serviceID
                 = Some (service\<lparr>Status := ''stopped'', PID := 0, UpdatedAt := t\<rparr>))"
proof -
  define os2 where "os2 = session env serviceID os"
  define os3 where "os3 = snd (svc_Query env serviceID os2)"
  define wsm1 where "wsm1 = wsm\<lparr>services := AList.update serviceID
                    (service\<lparr>Status := ''stopped'', PID := 0, UpdatedAt := now os3\<rparr>)
                    (services wsm)\<rparr>"
  note s = session_steps [OF sess, folded os2_def]
  have q: "svc_Query env serviceID os2 = (Some (Stopped, p), os3)"
    using q0 by (simp add: os2_def os3_def prod_eq_iff)
  have t3: "trace os3 = trace os @ [(OpConnect, Done), (OpOpenService serviceID, Done),
              (OpQuery serviceID, Reported Stopped p)]"
    using svc_Query_Some [OF q0] s(3) by (simp add: os3_def os2_def)
  have "StopService env serviceID wsm os
          = withSCM env (stop_operation env serviceID service) wsm os"
    by (simp add: StopService_def known)
  also have "\<dots> = (Inr (), wsm1,
                scm_Disconnect env (svc_Close env serviceID (saveServices env wsm1 os3)))"
    using withSCM_connected [of env os _ "stop_operation env serviceID service" wsm,
        OF s(1) stop_operation_already_stopped [OF s(2) q _ wsm1_def]]
    by simp
  finally have res: "r = Inr ()" "wsm' = wsm1"
      "os' = scm_Disconnect env (svc_Close env serviceID (saveServices env wsm1 os3))"
    using run by simp_all
  obtain w where w: "trace (saveServices env wsm1 os3) = trace os3 @ [(OpWriteFile (dataFile wsm1), w)]"
    using saveServices_trace by blast
  have df: "dataFile wsm1 = dataFile wsm"
    by (simp add: wsm1_def)
  have "trace os' = trace os @
              [(OpConnect, Done), (OpOpenService serviceID, Done),
               (OpQuery serviceID, Reported Stopped p), (OpWriteFile (dataFile wsm), w),
               (OpClose serviceID, Done), (OpDisconnect, Done)]"
    by (simp add: res(3) scm_Disconnect_def svc_Close_def w t3 df)
  then have tr: "issued os os' =
              [(OpConnect, Done), (OpOpenService serviceID, Done),
               (OpQuery serviceID, Reported Stopped p), (OpWriteFile (dataFile wsm), w),
               (OpClose serviceID, Done), (OpDisconnect, Done)]"
    by (simp add: issued_def)
  have rec: "map_of (services wsm') serviceID
               = Some (service\<lparr>Status := ''stopped'', PID := 0, UpdatedAt := now os3\<rparr>)"
    by (simp add: res(2) wsm1_def update_conv')
  from res(1) tr rec show ?thesis
    by auto
qed

theorem StopService_idempotent_witness:
  "map_of (services wsm_demo) ''WSM_app_0'' = Some svc_demo
   \<and> session_ok env_quiet ''WSM_app_0'' os_demo
   \<and> fst (svc_Query env_quiet ''WSM_app_0'' (session env_quiet ''WSM_app_0'' os_demo)) = Some (Stopped, 0)
   \<and> (fst demo_stop = Inr ()
       \<and> (\<exists>w. issued os_demo (snd (snd demo_stop)) =
              [(OpConnect, Done), (OpOpenService ''WSM_app_0'', Done),
               (OpQuery ''WSM_app_0'', Reported Stopped 0), (OpWriteFile (dataFile wsm_demo), w),
               (OpClose ''WSM_app_0'', Done), (OpDisconnect, Done)])
       \<and> list_all (\<lambda>e. (\<forall>c. fst e \<noteq> OpControl ''WSM_app_0'' c) \<and> (\<forall>d. fst e \<noteq> OpSleep d))
            (issued os_demo (snd (snd demo_stop)))
       \<and> (\<exists>t. map_of (services (fst (snd demo_stop))) ''WSM_app_0''
                 = Some (svc_demo\<lparr>Status := ''stopped'', PID := 0, UpdatedAt := t\<rparr>)))"
proof -
  have known: "map_of (services wsm_demo) ''WSM_app_0'' = Some svc_demo"
    by code_simp
  have sess: "session_ok env_quiet ''WSM_app_0'' os_demo"
    by code_simp
  have q0: "fst (svc_Query env_quiet ''WSM_app_0'' (session env_quiet ''WSM_app_0'' os_demo))
              = Some (Stopped, 0)"
    by code_simp
  have run: "StopService env_quiet ''WSM_app_0'' wsm_demo os_demo
               = (fst demo_stop, fst (snd demo_stop), snd (snd demo_stop))"
    by (simp add: demo_stop_def)
  show ?thesis
    by (rule conjI [OF known conjI [OF sess conjI [OF q0
          StopService_idempotent [OF known sess q0 run]]]])
qed

section \<open>Status resolution\<close>

lemma cache_hit_returns:
  assumes "cache_Get (statusCache wsm) (now os) serviceName = Some cs"
  shows "getServiceRealTimeStatus env serviceName wsm os = ((cs_Status cs, cs_PID cs), wsm, os)"
  by (simp add: getServiceRealTimeStatus_def assms)

lemma cache_Get_fresh:
  assumes "cache c k = Some e" "ttl c = 5 * second" "tnow - cs_Timestamp e \<le> 5 * second"
  shows "cache_Get c tnow k = Some e"
  using assms stale_iff [of tnow "cs_Timestamp e"] by (simp add: cache_Get_def)

text \<open>
  C10. When the cache has no fresh entry for a service and opening or querying the
  service fails, status resolution returns \<open>error\<close> with pid 0 and stores that result in
  the cache with the instant of the failure. Every later resolution for this service, on
  any platform state whose clock is at most five seconds after that instant, returns
  \<open>error\<close> with pid 0 from the cache and leaves the platform state as it is: it issues no
  call.
\<close>

theorem status_error_is_cached:
  assumes miss: "cache_Get (statusCache wsm) (now os) serviceName = None"
      and ttl5: "ttl (statusCache wsm) = 5 * second"
      and failure: "\<not> fst (scm_OpenService env serviceName os)
                    \<or> fst (svc_Query env serviceName (snd (scm_OpenService env serviceName os))) = None"
      and run: "getServiceRealTimeStatus env serviceName wsm os = (r, wsm', os')"
  shows "r = (''error'', 0)
       \<and> (\<exists>ts. cache (statusCache wsm') serviceName
                   = Some \<lparr>cs_Status = ''error'', cs_PID = 0, cs_Timestamp = ts\<rparr>
              \<and> now os \<le> ts \<and> ts \<le> now os'
              \<and> (\<forall>env2 os2. now os2 - ts \<le> 5 * second \<longrightarrow>
                    getServiceRealTimeStatus env2 serviceName wsm' os2 = ((''error'', 0), wsm', os2)))"
proof -
  define os1 where "os1 = snd (scm_OpenService env serviceName os)"
  define os2 where "os2 = snd (svc_Query env serviceName os1)"
  define ts where "ts = (if fst (scm_OpenService env serviceName os) then now os2 else now os1)"
  define e where "e = \<lparr>cs_Status = ''error'', cs_PID = 0, cs_Timestamp = ts\<rparr>"
  have n1: "now os \<le> now os1"
    by (simp add: os1_def scm_OpenService_def attempt_eq)
  have n2: "now os1 \<le> now os2"
    by (simp add: os2_def svc_Query_def)
  from run miss failure
  have r: "r = (''error'', 0)"
    and w: "wsm' = wsm\<lparr>statusCache := cache_Set (statusCache wsm) ts serviceName ''error'' 0\<rparr>"
    and o: "os' = (if fst (scm_OpenService env serviceName os)
                   then svc_Close env serviceName os2 else os1)"
    by (auto simp: getServiceRealTimeStatus_def case_prod_beta Let_def ts_def os1_def os2_def
          split: if_splits)
  have c: "cache (statusCache wsm') serviceName = Some e"
    by (simp add: w cache_Set_def e_def)
  have t: "ttl (statusCache wsm') = 5 * second"
    by (simp add: w cache_Set_def ttl5)
  have bounds: "now os \<le> ts" "ts \<le> now os'"
    using n1 n2 by (auto simp: ts_def o svc_Close_def)
  have later: "getServiceRealTimeStatus env2 serviceName wsm' os2' = ((''error'', 0), wsm', os2')"
    if "now os2' - ts \<le> 5 * second" for env2 os2'
    using cache_hit_returns [OF cache_Get_fresh [OF c t], of os2' env2] that
    by (simp add: e_def)
  from r c bounds later show ?thesis
    unfolding e_def by blast
qed

theorem status_error_is_cached_witness:
  "cache_Get (statusCache wsm_demo) (now os_demo) ''WSM_app_0'' = None
   \<and> ttl (statusCache wsm_demo) = 5 * second
   \<and> fst (scm_OpenService env_closed ''WSM_app_0'' os_demo) = False
   \<and> (fst demo_status = (''error'', 0)
       \<and> (\<exists>ts. cache (statusCache (fst (snd demo_status))) ''WSM_app_0''
                   = Some \<lparr>cs_Status = ''error'', cs_PID = 0, cs_Timestamp = ts\<rparr>
              \<and> now os_demo \<le> ts \<and> ts \<le> now (snd (snd demo_status))
              \<and> (\<forall>env2 os2. now os2 - ts \<le> 5 * second \<longrightarrow>
                    getServiceRealTimeStatus env2 ''WSM_app_0'' (fst (snd demo_status)) os2
                      = ((''error'', 0), fst (snd demo_status), os2))))"
proof -
  have miss: "cache_Get (statusCache wsm_demo) (now os_demo) ''WSM_app_0'' = None"
    by (simp add: wsm_demo_def NewWindowsServiceManager_def NewServiceStatusCache_def cache_Get_def)
  have ttl5: "ttl (statusCache wsm_demo) = 5 * second"
    by (simp add: wsm_demo_def NewWindowsServiceManager_def NewServiceStatusCache_def)
  have closed: "fst (scm_OpenService env_closed ''WSM_app_0'' os_demo) = False"
    by code_simp
  then have failure: "\<not> fst (scm_OpenService env_closed ''WSM_app_0'' os_demo)
      \<or> fst (svc_Query env_closed ''WSM_app_0'' (snd (scm_OpenService env_closed ''WSM_app_0'' os_demo)))
          = None"
    by simp
  have run: "getServiceRealTimeStatus env_closed ''WSM_app_0'' wsm_demo os_demo
               = (fst demo_status, fst (snd demo_status), snd (snd demo_status))"
    by (simp add: demo_status_def)
  show ?thesis
    by (rule conjI [OF miss conjI [OF ttl5 conjI [OF closed
          status_error_is_cached [OF miss ttl5 failure run]]]])
qed

section \<open>Service ids\<close>




section \<open>Loading the configuration of the host\<close>



section \<open>Creating a service\<close>

lemma reg_only_refl [simp]: "reg_only os os"
  by (simp add: reg_only_def regs_def)

lemma reg_only_trans: "reg_only os1 os2 \<Longrightarrow> reg_only os2 os3 \<Longrightarrow> reg_only os1 os3"
  by (auto simp: reg_only_def regs_def)

lemma reg_only_step: "reg_call c \<Longrightarrow> reg_only os (step env c out os)"
  by (simp add: reg_only_def regs_def)

lemma setServiceRegistryValue_reg_only:
  "reg_only os (snd (setServiceRegistryValue env serviceName subKey valueName v os))"
  by (simp add: setServiceRegistryValue_def reg_OpenKey_def reg_CreateKey_def
        reg_SetStringValue_def reg_CloseKey_def attempt_eq Let_def case_prod_beta
        reg_only_def regs_def reg_call_def)

lemma storeServiceConfigInRegistry_reg_only:
  "reg_only os (snd (storeServiceConfigInRegistry env serviceName exePath args workingDir os))"
proof -
  define r1 where "r1 = setServiceRegistryValue env serviceName ''Parameters'' ''ExePath'' exePath os"
  define r2 where "r2 = (if args \<noteq> []
       then setServiceRegistryValue env serviceName ''Parameters'' ''Args'' args (snd r1)
       else (None, snd r1))"
  define r3 where "r3 = (if workingDir \<noteq> []
       then setServiceRegistryValue env serviceName ''Parameters'' ''WorkingDir'' workingDir (snd r2)
       else (None, snd r2))"
  have 1: "reg_only os (snd r1)"
    unfolding r1_def by (rule setServiceRegistryValue_reg_only)
  have "reg_only (snd r1) (snd r2)"
    unfolding r2_def by (simp add: setServiceRegistryValue_reg_only)
  with 1 have 2: "reg_only os (snd r2)"
    by (rule reg_only_trans)
  have "reg_only (snd r2) (snd r3)"
    unfolding r3_def by (simp add: setServiceRegistryValue_reg_only)
  with 2 have 3: "reg_only os (snd r3)"
    by (rule reg_only_trans)
  have "snd (storeServiceConfigInRegistry env serviceName exePath args workingDir os)
          = (if fst r1 \<noteq> None then snd r1 else if fst r2 \<noteq> None then snd r2 else snd r3)"
    by (simp add: storeServiceConfigInRegistry_def r1_def r2_def r3_def case_prod_beta
          split: option.splits)
  with 1 2 3 show ?thesis
    by simp
qed

lemma createServiceWrapper_reg_only:
  "reg_only os (snd (createServiceWrapper env serviceName exePath args workingDir os))"
proof -
  define os1 where "os1 = snd (attempt env OpExecutable True os)"
  have 1: "reg_only os os1"
    by (simp add: os1_def attempt_eq reg_only_step reg_call_def)
  have 2: "reg_only os1 (snd (storeServiceConfigInRegistry env serviceName exePath args workingDir os1))"
    by (rule storeServiceConfigInRegistry_reg_only)
  have "snd (createServiceWrapper env serviceName exePath args workingDir os)
          \<in> {os1, snd (storeServiceConfigInRegistry env serviceName exePath args workingDir os1)}"
    by (auto simp: createServiceWrapper_def os1_def case_prod_beta Let_def
          split: prod.splits option.splits)
  with 1 reg_only_trans [OF 1 2] show ?thesis
    by auto
qed

lemma svc_Delete_facts:
  "\<exists>out. trace (snd (svc_Delete env name os)) = trace os @ [(OpDelete name, out)]
         \<and> (out = Done \<longrightarrow> scm (snd (svc_Delete env name os)) name = None)"
  by (simp add: svc_Delete_def attempt_eq Let_def)

lemma rollback_facts:
  assumes "reg_only os1 os2"
  shows "\<exists>ev out. trace (svc_Close env name (snd (svc_Delete env name os2)))
                     = trace os1 @ ev @ [(OpDelete name, out), (OpClose name, Done)]
           \<and> regs ev
           \<and> (out = Done \<longrightarrow> scm (svc_Close env name (snd (svc_Delete env name os2))) name = None)"
proof -
  from assms obtain ev where "trace os2 = trace os1 @ ev" "regs ev"
    by (auto simp: reg_only_def)
  moreover obtain out where "trace (snd (svc_Delete env name os2)) = trace os2 @ [(OpDelete name, out)]"
    "out = Done \<longrightarrow> scm (snd (svc_Delete env name os2)) name = None"
    using svc_Delete_facts by blast
  ultimately show ?thesis
    by (intro exI [of _ ev] exI [of _ out]) (simp add: svc_Close_def)
qed

lemma create_operation_cases:
  assumes "create_operation env config name workingDir wsm os = (r, wsm1, os1)"
  shows "wsm1 = wsm
       \<and> (create_failed name os r os1 \<or> create_rolled_back name os r os1 \<or> create_done name os r os1)"
proof -
  define serviceConfig where "serviceConfig =
            \<lparr>ServiceType = 0x10, StartType = StartAutomatic, ErrorControl = 1,
             BinaryPathName = [], DisplayName = cfg_Name config,
             Description = ''Service created by Windows Service Manager: '' @ cfg_Name config\<rparr>"
  define bp where "bp =
            (if cfg_Args config \<noteq> []
             then [dquote] @ cfg_ExePath config @ [dquote] @ '' '' @ cfg_Args config
             else cfg_ExePath config)"
  define created where "created = fst (scm_CreateService env name bp serviceConfig os)"
  define osa where "osa = snd (scm_CreateService env name bp serviceConfig os)"
  define wr where "wr = createServiceWrapper env name (cfg_ExePath config) (cfg_Args config) workingDir osa"
  have cr: "scm_CreateService env name bp serviceConfig os = (created, osa)"
    by (simp add: created_def osa_def)
  have unfold: "create_operation env config name workingDir wsm os =
     (if \<not> created
         then (Inl (Errorf ''failed to create Windows service: '' (Some OSError)), wsm, osa)
         else
           (case wr of
              (Inl err, os2) \<Rightarrow>
                (Inl (Errorf ''failed to create service wrapper: '' (Some err)), wsm,
                 svc_Close env name (snd (svc_Delete env name os2)))
            | (Inr wrapperPath, os2) \<Rightarrow>
                (case setServiceImagePathDirect env name wrapperPath os2 of
                   (Some err, os3) \<Rightarrow>
                     (Inl (Errorf ''failed to set service path: '' (Some err)), wsm,
                      svc_Close env name (snd (svc_Delete env name os3)))
                 | (None, os3) \<Rightarrow>
                     (let (werr, os4) = setServiceWorkingDirectory env name workingDir os3;
                          os5 = (if werr \<noteq> None
                                 then step env (OpPrintf ''Warning: failed to set working directory: '')
                                        Done os4
                                 else os4);
                          service =
                            \<lparr>ID = name, Name = cfg_Name config,
                             ExePath = cfg_ExePath config, Args = cfg_Args config,
                             WorkingDir = workingDir, Status = ''stopped'', PID = 0,
                             AutoStart = False, CreatedAt = now os5, UpdatedAt = now os5\<rparr>
                      in (Inr service, wsm, svc_Close env name os5)))))"
    by (simp add: create_operation_def serviceConfig_def bp_def created_def osa_def
          wr_def Let_def case_prod_beta)
  show ?thesis
  proof (cases created)
    case False
    then have "trace osa = trace os @ [(OpCreateService name bp, Failed)]"
      using cr by (auto simp: scm_CreateService_def attempt_eq Let_def)
    with False assms unfold have "wsm1 = wsm" "create_failed name os r os1"
      by (auto simp: create_failed_def)
    then show ?thesis by blast
  next
    case True
    then have ta: "trace osa = trace os @ [(OpCreateService name bp, Done)]"
      and sa: "scm osa name = Some (serviceConfig\<lparr>BinaryPathName := bp\<rparr>)"
      using cr by (auto simp: scm_CreateService_def attempt_eq Let_def)
    obtain w os2 where wr: "wr = (w, os2)"
      by (cases wr)
    have ro2: "reg_only osa os2"
      using createServiceWrapper_reg_only [of osa env name "cfg_ExePath config" "cfg_Args config" workingDir]
      by (simp add: wr_def [symmetric] wr)
    show ?thesis
    proof (cases w)
      case (Inl err)
      with True assms unfold wr
      have res: "wsm1 = wsm" "r = Inl (Errorf ''failed to create service wrapper: '' (Some err))"
        "os1 = svc_Close env name (snd (svc_Delete env name os2))"
        by simp_all
      from rollback_facts [OF ro2, of env name] obtain ev out where
        "trace os1 = trace osa @ ev @ [(OpDelete name, out), (OpClose name, Done)]"
        "regs ev" "out = Done \<longrightarrow> scm os1 name = None"
        unfolding res(3) by blast
      with res(2) ta have "create_rolled_back name os r os1"
        unfolding create_rolled_back_def by auto
      with res(1) show ?thesis by blast
    next
      case (Inr wrapperPath)
      obtain ierr os3 where ip: "setServiceImagePathDirect env name wrapperPath os2 = (ierr, os3)"
        by (cases "setServiceImagePathDirect env name wrapperPath os2")
      have "reg_only os2 os3"
        using setServiceRegistryValue_reg_only [of os2 env name "[]" "''ImagePath''" wrapperPath] ip
        by (simp add: setServiceImagePathDirect_def)
      with ro2 have ro3: "reg_only osa os3"
        by (rule reg_only_trans)
      show ?thesis
      proof (cases ierr)
        case (Some err)
        with True assms unfold wr Inr ip
        have res: "wsm1 = wsm" "r = Inl (Errorf ''failed to set service path: '' (Some err))"
          "os1 = svc_Close env name (snd (svc_Delete env name os3))"
          by simp_all
        from rollback_facts [OF ro3, of env name] obtain ev out where
          "trace os1 = trace osa @ ev @ [(OpDelete name, out), (OpClose name, Done)]"
          "regs ev" "out = Done \<longrightarrow> scm os1 name = None"
          unfolding res(3) by blast
        with res(2) ta have "create_rolled_back name os r os1"
          unfolding create_rolled_back_def by auto
        with res(1) show ?thesis by blast
      next
        case None
        obtain werr os4 where wd: "setServiceWorkingDirectory env name workingDir os3 = (werr, os4)"
          by (cases "setServiceWorkingDirectory env name workingDir os3")
        have "reg_only os3 os4"
          using setServiceRegistryValue_reg_only
                  [of os3 env name "''Parameters''" "''AppDirectory''" workingDir] wd
          by (simp add: setServiceWorkingDirectory_def)
        with ro3 have "reg_only osa os4"
          by (rule reg_only_trans)
        then obtain ev where ev: "trace os4 = trace osa @ ev" "regs ev" and s4: "scm os4 = scm osa"
          by (auto simp: reg_only_def)
        define os5 where "os5 = (if werr \<noteq> None
                                 then step env (OpPrintf ''Warning: failed to set working directory: '')
                                        Done os4
                                 else os4)"
        define w where "w = (if werr \<noteq> None
             then [(OpPrintf ''Warning: failed to set working directory: '', Done)] else [])"
        have t5: "trace os5 = trace osa @ ev @ w" and s5: "scm os5 = scm osa"
          by (simp_all add: os5_def w_def ev s4)
        from True assms unfold wr Inr ip None wd
        have res: "wsm1 = wsm" "os1 = svc_Close env name os5"
          "r = Inr \<lparr>ID = name, Name = cfg_Name config,
                             ExePath = cfg_ExePath config, Args = cfg_Args config,
                             WorkingDir = workingDir, Status = ''stopped'', PID = 0,
                             AutoStart = False, CreatedAt = now os5, UpdatedAt = now os5\<rparr>"
          by (simp_all add: os5_def Let_def)
        have "trace os1 = trace os @ (OpCreateService name bp, Done) # ev @ w @ [(OpClose name, Done)]"
          by (simp add: res(2) svc_Close_def t5 ta)
        moreover have "w = [] \<or> w = [(OpPrintf ''Warning: failed to set working directory: '', Done)]"
          by (simp add: w_def)
        moreover have "scm os1 name = Some (serviceConfig\<lparr>BinaryPathName := bp\<rparr>)"
          by (simp add: res(2) svc_Close_def s5 sa)
        moreover have "StartType (serviceConfig\<lparr>BinaryPathName := bp\<rparr>) = StartAutomatic"
          by (simp add: serviceConfig_def)
        ultimately have "create_done name os r os1"
          unfolding create_done_def using res(3) \<open>regs ev\<close> by auto
        with res(1) show ?thesis by blast
      qed
    qed
  qed
qed

lemma emitServicesUpdated_facts:
  "scm (emitServicesUpdated env wsm os) = scm os"
  "\<exists>ev. trace (emitServicesUpdated env wsm os) = trace os @ ev
        \<and> (ev = [] \<or> (\<exists>l. ev = [(EmitServicesUpdated l, Done)]))"
  by (simp_all add: emitServicesUpdated_def)

lemma CreateService_cases:
  assumes run: "CreateService env config wsm os = (r, wsm', os')"
  shows "(wsm' = wsm \<and> create_rejected config os r os')
       \<or> (\<exists>name workingDir osc os1 r1.
             trace osc = trace os @ [(OpStat (cfg_ExePath config), Done), (OpConnect, Done)]
           \<and> create_operation env config name workingDir wsm osc = (r1, wsm, os1)
           \<and> (case r1 of
                 Inl e \<Rightarrow> r = Inl e \<and> wsm' = wsm \<and> os' = scm_Disconnect env os1
               | Inr s \<Rightarrow> r = Inr s
                   \<and> wsm' = wsm\<lparr>services := AList.update name s (services wsm)\<rparr>
                   \<and> os' = emitServicesUpdated env wsm'
                             (saveServices env wsm' (scm_Disconnect env os1))))"
proof -
  define found where "found = (\<not> fails env os (OpStat (cfg_ExePath config)))"
  define os0 where "os0 = step env (OpStat (cfg_ExePath config)) (if found then Done else Failed) os"
  define name where "name = generateServiceName (cfg_Name config) (now os0)"
  define workingDir where "workingDir =
     (if cfg_WorkingDir config = [] then filepath_Dir env (cfg_ExePath config)
      else cfg_WorkingDir config)"
  have stat: "attempt env (OpStat (cfg_ExePath config)) True os = (found, os0)"
    by (simp add: attempt_eq found_def os0_def)
  have t0: "trace os0 = trace os @ [(OpStat (cfg_ExePath config), if found then Done else Failed)]"
    by (simp add: os0_def)
  note unfold = run [unfolded CreateService_def stat, simplified,
      folded name_def, unfolded Let_def, folded workingDir_def]
  show ?thesis
  proof (cases "found \<and> map_of (services wsm) name = None")
    case False
    with unfold t0 have "wsm' = wsm" "create_rejected config os r os'"
      by (auto simp: create_rejected_def issued_def split: if_splits)
    then show ?thesis by blast
  next
    case True
    define connected where "connected = (\<not> fails env os0 OpConnect)"
    define osc where "osc = step env OpConnect (if connected then Done else Failed) os0"
    have conn: "connectSCM env os0 = (connected, osc)"
      by (simp add: connectSCM_def attempt_eq connected_def osc_def)
    have tc: "trace osc = trace os @ [(OpStat (cfg_ExePath config), Done),
                (OpConnect, if connected then Done else Failed)]"
      using True by (simp add: osc_def t0)
    show ?thesis
    proof (cases connected)
      case False
      with True unfold conn tc have "wsm' = wsm" "create_rejected config os r os'"
        by (auto simp: withSCM_def create_rejected_def issued_def)
      then show ?thesis by blast
    next
      case connected: True
      obtain r1 wsm1 os1 where op: "create_operation env config name workingDir wsm osc = (r1, wsm1, os1)"
        by (cases "create_operation env config name workingDir wsm osc")
      with create_operation_cases have w1: "wsm1 = wsm"
        by blast
      from True unfold conn connected op w1
      have "case r1 of
                 Inl e \<Rightarrow> r = Inl e \<and> wsm' = wsm \<and> os' = scm_Disconnect env os1
               | Inr s \<Rightarrow> r = Inr s
                   \<and> wsm' = wsm\<lparr>services := AList.update name s (services wsm)\<rparr>
                   \<and> os' = emitServicesUpdated env wsm'
                             (saveServices env wsm' (scm_Disconnect env os1))"
        by (auto simp: withSCM_def split: sum.splits)
      with tc connected op w1 show ?thesis
        by (intro disjI2 exI [of _ name] exI [of _ workingDir] exI [of _ osc] exI [of _ os1]
              exI [of _ r1]) simp
    qed
  qed
qed



text \<open>
  C9. A record that \<open>CreateService\<close> returns has \<open>AutoStart\<close> false, and
  \<open>GetServiceAutoStart\<close> then answers false for it, while the service object that the
  platform holds for it has the start type automatic.
\<close>

theorem CreateService_autostart_mismatch:
  assumes run: "CreateService env config wsm os = (Inr service, wsm', os')"
  shows "AutoStart service = False
       \<and> GetServiceAutoStart wsm' (ID service) = False
       \<and> (\<exists>c. scm os' (ID service) = Some c \<and> StartType c = StartAutomatic)"
proof -
  from CreateService_cases [OF run]
  obtain name workingDir osc os1 r1 where
        op: "create_operation env config name workingDir wsm osc = (r1, wsm, os1)"
    and res: "case r1 of
           Inl e \<Rightarrow> Inr service = (Inl e :: error + Service) \<and> wsm' = wsm \<and> os' = scm_Disconnect env os1
         | Inr s \<Rightarrow> Inr service = (Inr s :: error + Service)
             \<and> wsm' = wsm\<lparr>services := AList.update name s (services wsm)\<rparr>
             \<and> os' = emitServicesUpdated env wsm' (saveServices env wsm' (scm_Disconnect env os1))"
    by (auto simp: create_rejected_def errConnect_def)
  from res have r1: "r1 = Inr service"
    and w: "wsm' = wsm\<lparr>services := AList.update name service (services wsm)\<rparr>"
    and o: "os' = emitServicesUpdated env wsm' (saveServices env wsm' (scm_Disconnect env os1))"
    by (auto split: sum.splits)
  from create_operation_cases [OF op] r1 have "create_done name osc r1 os1"
    by (auto simp: create_failed_def create_rolled_back_def)
  with r1 obtain c where s: "ID service = name" "AutoStart service = False"
    and c: "scm os1 name = Some c" "StartType c = StartAutomatic"
    by (auto simp: create_done_def)
  have "GetServiceAutoStart wsm' (ID service) = False"
    by (simp add: GetServiceAutoStart_def w s update_conv')
  moreover have "scm os' (ID service) = Some c"
    by (simp add: o emitServicesUpdated_facts(1) scm_Disconnect_def c s)
  ultimately show ?thesis
    using s(2) c(2) by simp
qed



theorem CreateService_autostart_mismatch_witness:
  "\<not> isl (fst demo_created)
   \<and> AutoStart (projr (fst demo_created)) = False
   \<and> GetServiceAutoStart (fst (snd demo_created)) (ID (projr (fst demo_created))) = False
   \<and> (\<exists>c. scm (snd (snd demo_created)) (ID (projr (fst demo_created))) = Some c
          \<and> StartType c = StartAutomatic)"
proof -
  have ok: "\<not> isl (fst demo_created)"
    by code_simp
  then have run: "CreateService env_quiet cfg_app (NewWindowsServiceManager ''data.json'') os_boot
                    = (Inr (projr (fst demo_created)), fst (snd demo_created), snd (snd demo_created))"
    by (simp add: demo_created_def [symmetric])
  show ?thesis
    by (rule conjI [OF ok CreateService_autostart_mismatch [OF run]])
qed

section \<open>Deleting a service\<close>

lemma poll_round_keeps: "keeps (concat (map (poll_round name) obs))"
  by (induction obs) (simp_all add: keeps_def poll_round_def)

lemma waitForServiceState_keeps:
  "\<exists>ev. trace (snd (waitForServiceState env name targetState timeout os)) = trace os @ ev \<and> keeps ev"
proof -
  obtain r os' where w: "waitLoop env name targetState (now os + timeout) os = (r, os')"
    by (cases "waitLoop env name targetState (now os + timeout) os")
  from waitLoop_run [OF w] obtain obs fin where
    p: "polled name targetState (now os + timeout) os r os' obs fin"
    by blast
  then have "keeps fin"
    by (auto simp: polled_def keeps_def split: option.splits)
  with p poll_round_keeps [of name obs]
  have "trace os' = trace os @ (concat (map (poll_round name) obs) @ fin)"
    "keeps (concat (map (poll_round name) obs) @ fin)"
    by (simp_all add: polled_def keeps_def)
  with w show ?thesis
    unfolding waitForServiceState_def by (metis snd_conv)
qed

lemma best_effort_stop_keeps:
  "\<exists>ev. trace (best_effort_stop env serviceID os) = trace os @ ev \<and> keeps ev"
proof -
  define os1 where "os1 = snd (svc_Query env serviceID os)"
  define os2 where "os2 = snd (svc_Control env serviceID Stop os1)"
  obtain e1 where e1: "trace os1 = trace os @ [e1]" "keeps [e1]"
    by (cases "fails env os (OpQuery serviceID)") (auto simp: os1_def svc_Query_def keeps_def)
  obtain e2 where e2: "trace os2 = trace os1 @ [e2]" "keeps [e2]"
    by (auto simp: os2_def svc_Control_def attempt_eq keeps_def)
  obtain ev where ev:
    "trace (snd (waitForServiceState env serviceID Stopped (30 * second) os2)) = trace os2 @ ev"
    "keeps ev"
    using waitForServiceState_keeps by blast
  have "best_effort_stop env serviceID os = os1
      \<or> best_effort_stop env serviceID os
           = snd (waitForServiceState env serviceID Stopped (30 * second) os2)"
    by (simp add: best_effort_stop_def os1_def os2_def case_prod_beta split: option.splits)
  then show ?thesis
  proof
    assume "best_effort_stop env serviceID os = os1"
    with e1 show ?thesis by auto
  next
    assume "best_effort_stop env serviceID os
              = snd (waitForServiceState env serviceID Stopped (30 * second) os2)"
    with e1 e2 ev have
      "trace (best_effort_stop env serviceID os) = trace os @ (e1 # e2 # ev)" "keeps (e1 # e2 # ev)"
      by (simp_all add: keeps_def)
    then show ?thesis by blast
  qed
qed

lemma refreshAll_lists:
  assumes "(k, service) \<in> set xs"
  shows "\<exists>s \<in> set (fst (refreshAll env xs wsm os)). refreshed service s"
  using assms
proof (induction xs arbitrary: wsm os)
  case Nil
  then show ?case by simp
next
  case (Cons x xs)
  obtain k0 s0 where x: "x = (k0, s0)"
    by (cases x)
  obtain r wsm1 os1 where g: "getServiceRealTimeStatus env (ID s0) wsm os = (r, wsm1, os1)"
    by (cases "getServiceRealTimeStatus env (ID s0) wsm os")
  define wsm2 where "wsm2 = wsm1\<lparr>services := AList.update k0
       (s0\<lparr>Status := fst r, PID := snd r, UpdatedAt := now os1\<rparr>) (services wsm1)\<rparr>"
  have out: "fst (refreshAll env (x # xs) wsm os)
               = s0\<lparr>Status := fst r, PID := snd r, UpdatedAt := now os1\<rparr>
                 # fst (refreshAll env xs wsm2 os1)"
    by (simp add: x g wsm2_def Let_def case_prod_beta)
  show ?case
  proof (cases "(k, service) = x")
    case True
    with x have "refreshed service (s0\<lparr>Status := fst r, PID := snd r, UpdatedAt := now os1\<rparr>)"
      by (auto simp: refreshed_def)
    with out show ?thesis by simp
  next
    case False
    with Cons.prems have "(k, service) \<in> set xs" by simp
    from Cons.IH [OF this, of wsm2 os1] out show ?thesis by auto
  qed
qed

lemma GetServices_lists:
  assumes "map_of (services wsm) serviceID = Some service"
      and "GetServices env wsm os = (Inr l, wsm1, os1)"
  shows "\<exists>s \<in> set l. refreshed service s"
proof -
  from assms(1) have "(serviceID, service) \<in> set (services wsm)"
    by (rule map_of_SomeD)
  from refreshAll_lists [OF this]
  have *: "\<exists>s \<in> set (fst (refreshAll env (services wsm) wsm os2)). refreshed service s" for os2
    by blast
  from assms(2) have "l = fst (refreshAll env (services wsm) wsm (snd (connectSCM env os)))"
    by (auto simp: GetServices_def withSCM_def case_prod_beta Let_def split: if_splits)
  with * show ?thesis by simp
qed

text \<open>
  C3, as the code has it. When the request to delete the service object of a known
  service fails, \<open>DeleteService\<close> returns the error of the deletion and leaves the manager
  exactly as it was: the record stays in the map, with the status it had, and the cache is
  untouched. A later \<open>GetServices\<close> lists the record, with status, pid and time of update
  as it resolves them then.
\<close>

theorem DeleteService_failure_keeps_record:
  assumes known: "map_of (services wsm) serviceID = Some service"
      and run: "DeleteService env serviceID wsm os = (r, wsm', os')"
      and failed: "(OpDelete serviceID, Failed) \<in> set (issued os os')"
  shows "r = Inl errDelete \<and> wsm' = wsm
       \<and> (\<forall>env2 os2 l wsm2 os3. GetServices env2 wsm' os2 = (Inr l, wsm2, os3) \<longrightarrow>
             (\<exists>s \<in> set l. refreshed service s))"
proof -
  define connected where "connected = fst (connectSCM env os)"
  define os1 where "os1 = snd (connectSCM env os)"
  define opened where "opened = fst (scm_OpenService env serviceID os1)"
  define os2 where "os2 = snd (scm_OpenService env serviceID os1)"
  define os3 where "os3 = best_effort_stop env serviceID os2"
  define deleted where "deleted = fst (svc_Delete env serviceID os3)"
  define os4 where "os4 = snd (svc_Delete env serviceID os3)"
  have t1: "trace os1 = trace os @ [(OpConnect, if connected then Done else Failed)]"
    by (simp add: os1_def connected_def connectSCM_def attempt_eq)
  have t2: "trace os2 = trace os1 @ [(OpOpenService serviceID, if opened then Done else Failed)]"
    by (simp add: os2_def opened_def scm_OpenService_def attempt_eq)
  obtain ev where ev: "trace os3 = trace os2 @ ev" "keeps ev"
    unfolding os3_def using best_effort_stop_keeps by blast
  have t4: "trace os4 = trace os3 @ [(OpDelete serviceID, if deleted then Done else Failed)]"
    by (simp add: os4_def deleted_def svc_Delete_def attempt_eq Let_def)
  have "DeleteService env serviceID wsm os =
     (if \<not> connected then (Inl errConnect, wsm, os1)
      else if \<not> opened then (Inl errOpen, wsm, scm_Disconnect env os2)
      else if \<not> deleted then (Inl errDelete, wsm, scm_Disconnect env (svc_Close env serviceID os4))
      else (let wsm1 = wsm\<lparr>services := AList.delete serviceID (services wsm),
                              statusCache := cache_Remove (statusCache wsm) serviceID\<rparr>
            in (Inr (), wsm1, scm_Disconnect env (svc_Close env serviceID
                  (emitServicesUpdated env wsm1 (saveServices env wsm1 os4))))))"
    by (simp add: DeleteService_def known withSCM_def delete_operation_def connected_def os1_def
          opened_def os2_def os3_def deleted_def os4_def Let_def case_prod_beta)
  with run have unfold: "(r, wsm', os') =
     (if \<not> connected then (Inl errConnect, wsm, os1)
      else if \<not> opened then (Inl errOpen, wsm, scm_Disconnect env os2)
      else if \<not> deleted then (Inl errDelete, wsm, scm_Disconnect env (svc_Close env serviceID os4))
      else (let wsm1 = wsm\<lparr>services := AList.delete serviceID (services wsm),
                              statusCache := cache_Remove (statusCache wsm) serviceID\<rparr>
            in (Inr (), wsm1, scm_Disconnect env (svc_Close env serviceID
                  (emitServicesUpdated env wsm1 (saveServices env wsm1 os4))))))"
    by simp
  have nodel: "(OpDelete serviceID, Failed) \<notin> set ev"
    using ev(2) by (auto simp: keeps_def list_all_iff)
  have "\<not> deleted \<and> connected \<and> opened"
  proof (rule ccontr)
    assume "\<not> (\<not> deleted \<and> connected \<and> opened)"
    then consider "\<not> connected" | "connected" "\<not> opened" | "connected" "opened" "deleted"
      by blast
    then have "(OpDelete serviceID, Failed) \<notin> set (issued os os')"
    proof cases
      case 1
      with unfold have "os' = os1" by simp
      with 1 show ?thesis by (simp add: issued_def t1)
    next
      case 2
      with unfold have "os' = scm_Disconnect env os2" by simp
      with 2 show ?thesis by (simp add: issued_def scm_Disconnect_def t2 t1)
    next
      case 3
      define wsm1 where "wsm1 = wsm\<lparr>services := AList.delete serviceID (services wsm),
                              statusCache := cache_Remove (statusCache wsm) serviceID\<rparr>"
      from 3 unfold have o: "os' = scm_Disconnect env (svc_Close env serviceID
                  (emitServicesUpdated env wsm1 (saveServices env wsm1 os4)))"
        by (simp add: wsm1_def Let_def)
      obtain wf where wf: "trace (saveServices env wsm1 os4)
                             = trace os4 @ [(OpWriteFile (dataFile wsm1), wf)]"
        using saveServices_trace by blast
      obtain em where em: "trace (emitServicesUpdated env wsm1 (saveServices env wsm1 os4))
                             = trace (saveServices env wsm1 os4) @ em"
          "em = [] \<or> (\<exists>l. em = [(EmitServicesUpdated l, Done)])"
        using emitServicesUpdated_facts(2) by blast
      have "trace os' = trace os @ [(OpConnect, Done), (OpOpenService serviceID, Done)] @ ev
              @ [(OpDelete serviceID, Done), (OpWriteFile (dataFile wsm1), wf)] @ em
              @ [(OpClose serviceID, Done), (OpDisconnect, Done)]"
        using 3 by (simp add: o scm_Disconnect_def svc_Close_def em(1) wf t4 ev(1) t2 t1)
      then have "issued os os' = [(OpConnect, Done), (OpOpenService serviceID, Done)] @ ev
              @ [(OpDelete serviceID, Done), (OpWriteFile (dataFile wsm1), wf)] @ em
              @ [(OpClose serviceID, Done), (OpDisconnect, Done)]"
        by (simp add: issued_def)
      with nodel em(2) show ?thesis by auto
    qed
    with failed show False by simp
  qed
  with unfold have "r = Inl errDelete" "wsm' = wsm"
    by simp_all
  moreover from known have "\<exists>s \<in> set l. refreshed service s"
    if "GetServices env2 wsm os2 = (Inr l, wsm2, os3)" for env2 os2 l wsm2 os3
    using GetServices_lists that by blast
  ultimately show ?thesis
    by blast
qed

text \<open>
  A service recorded as running whose best-effort stop takes effect and whose deletion
  fails: \<open>DeleteService\<close> returns the error, and the next listing reports the record as
  stopped, not with the status it had.
\<close>

theorem DeleteService_listing_status_changes:
  "fst demo_delete = Inl errDelete
   \<and> map_of (services wsm_running) ''WSM_app_0'' = Some svc_running
   \<and> Status svc_running = ''running''
   \<and> (case fst demo_listing of Inr l \<Rightarrow> map Status l = [''stopped''] | Inl e \<Rightarrow> False)"
  by code_simp

theorem DeleteService_failure_keeps_record_witness:
  "map_of (services wsm_running) ''WSM_app_0'' = Some svc_running
   \<and> (OpDelete ''WSM_app_0'', Failed) \<in> set (issued os_demo (snd (snd demo_delete)))
   \<and> fst demo_delete = Inl errDelete \<and> fst (snd demo_delete) = wsm_running
   \<and> \<not> isl (fst demo_listing)
   \<and> (\<exists>s \<in> set (projr (fst demo_listing)). refreshed svc_running s)"
proof -
  have known: "map_of (services wsm_running) ''WSM_app_0'' = Some svc_running"
    by code_simp
  have failed: "(OpDelete ''WSM_app_0'', Failed) \<in> set (issued os_demo (snd (snd demo_delete)))"
    by code_simp
  have run: "DeleteService env_undeletable ''WSM_app_0'' wsm_running os_demo
               = (fst demo_delete, fst (snd demo_delete), snd (snd demo_delete))"
    by (simp add: demo_delete_def)
  have listed: "\<not> isl (fst demo_listing)"
    by code_simp
  then have listing: "GetServices env_undeletable (fst (snd demo_delete)) (snd (snd demo_delete))
      = (Inr (projr (fst demo_listing)), fst (snd demo_listing), snd (snd demo_listing))"
    by (simp add: demo_listing_def [symmetric])
  from DeleteService_failure_keeps_record [OF known run failed] listing
  have "fst demo_delete = Inl errDelete" "fst (snd demo_delete) = wsm_running"
    "\<exists>s \<in> set (projr (fst demo_listing)). refreshed svc_running s"
    by blast+
  with known failed listed show ?thesis
    by blast
qed

section \<open>The snapshot on disk\<close>









end
